theory Spec2Isabelle
  imports Complex_Main
begin

section \<open>The RDS metrics report of \<^verbatim>\<open>handler.py\<close>\<close>

text \<open>
  The handler lists the database instances of an account, reads two monitoring series for
  each, derives a row of six columns per instance, renders the rows as a CSV buffer and
  as a styled HTML table, and mails both.

  Conventions of the embedding:
  \<^item> a Python \<open>float\<close> is a rational (\<^typ>\<open>rat\<close>). \<open>round(x, 2)\<close> and the format
    \<open>:.2f\<close> round the exact value to hundredths, ties to even, and their result is kept
    as that decimal, which stands for the double nearest to it. The arithmetic of line 72
    is done in doubles: an operand is taken to the nearest double, and the quotient and
    the product are rounded to the nearest double, ties to even. The division of line 68,
    by a power of two, is exact. Overflow to infinity and NaN are outside the model;
  \<^item> a Python \<open>int\<close> is an \<^typ>\<open>int\<close>, a \<open>str\<close> a \<^typ>\<open>string\<close>, a \<open>dict\<close> an
    association list in insertion order;
  \<^item> a raised exception is the \<open>Inl\<close> of a sum; only exceptions derived from
    \<open>Exception\<close> are modelled, since those are what both \<open>except\<close> clauses catch;
  \<^item> the three service clients, the process environment and the clock are fields of a
    record that every function receives; the calls made to the mail service are
    appended to a log in that record;
  \<^item> calls to the logger are left out.
\<close>

subsection \<open>Values and exceptions\<close>

datatype py_value =
    PyNone
  | PyStr string
  | PyInt int
  | PyFloat rat
  | PyList "py_value list"

datatype py_error =
    KeyError string
  | ValueError string
  | TypeError string
  | ZeroDivisionError string
  | ClientError string

text \<open>\<open>str(e)\<close>: the message; a \<open>KeyError\<close> shows the key in quotes.\<close>

fun str_of_error :: "py_error \<Rightarrow> string" where
  "str_of_error (KeyError k) = [CHR 0x27] @ k @ [CHR 0x27]"
| "str_of_error (ValueError m) = m"
| "str_of_error (TypeError m) = m"
| "str_of_error (ZeroDivisionError m) = m"
| "str_of_error (ClientError m) = m"

type_synonym 'a result = "py_error + 'a"

text \<open>Sequencing of two steps, the second of which is skipped when the first raises.\<close>

definition and_then :: "'a result \<Rightarrow> ('a \<Rightarrow> 'b result) \<Rightarrow> 'b result" where
  "and_then r f = (case r of Inl e \<Rightarrow> Inl e | Inr x \<Rightarrow> f x)"

subsection \<open>Numbers\<close>

text \<open>The numeric value of an \<open>int\<close> or \<open>float\<close> operand; anything else is a \<open>TypeError\<close>.\<close>

fun num_of :: "py_value \<Rightarrow> rat result" where
  "num_of (PyInt i) = Inr (of_int i)"
| "num_of (PyFloat x) = Inr x"
| "num_of v = Inl (TypeError ''unsupported operand type(s)'')"

text \<open>Rounding to the nearest integer, a tie going to the even neighbour.\<close>

definition round_half_even :: "rat \<Rightarrow> int" where
  "round_half_even x =
     (let f = \<lfloor>x\<rfloor>; r = x - of_int f
      in if r < 1 / 2 then f
         else if 1 / 2 < r then f + 1
         else if even f then f else f + 1)"

text \<open>\<open>round(x, ndigits)\<close> on a float, for \<open>ndigits \<ge> 0\<close>.\<close>

definition py_round :: "rat \<Rightarrow> nat \<Rightarrow> rat" where
  "py_round x ndigits = of_int (round_half_even (x * 10 ^ ndigits)) / 10 ^ ndigits"

text \<open>
  True division \<open>a / b\<close> of a double by a power of two, as in line 68: it raises on a
  zero divisor, and its quotient is exact.
\<close>

definition py_truediv :: "rat \<Rightarrow> rat \<Rightarrow> rat result" where
  "py_truediv a b =
     (if b = 0 then Inl (ZeroDivisionError ''division by zero'') else Inr (a / b))"

text \<open>The number of binary digits of a positive integer (\<open>int.bit_length\<close>).\<close>

function bit_length :: "int \<Rightarrow> int" where
  "bit_length n = (if n \<le> 0 then 0 else 1 + bit_length (n div 2))"
  by pat_completeness auto
termination
  by (relation "measure nat") auto

declare bit_length.simps [simp del]

definition pow2 :: "int \<Rightarrow> rat" where
  "pow2 k = (if 0 \<le> k then 2 ^ nat k else 1 / 2 ^ nat (- k))"

text \<open>For \<open>x > 0\<close>, the exponent \<open>e\<close> with \<open>2 ^ e \<le> x < 2 ^ (e + 1)\<close>.\<close>

definition floor_log2 :: "rat \<Rightarrow> int" where
  "floor_log2 x =
     (if 1 \<le> x then bit_length \<lfloor>x\<rfloor> - 1 else - bit_length (\<lceil>1 / x\<rceil> - 1))"

text \<open>
  The double (IEEE 754 binary64) nearest to \<open>x\<close>, a tie going to the even significand:
  \<open>x\<close> is rounded to a multiple of \<open>2 ^ q\<close>, where \<open>q\<close> leaves 53 significant bits, and
  is at least \<open>-1074\<close>, the exponent of the smallest subnormal. Values beyond the largest
  double, which become infinite, are outside the model.
\<close>

definition binary64 :: "rat \<Rightarrow> rat" where
  "binary64 x =
     (if x = 0 then 0
      else let q = max (floor_log2 \<bar>x\<bar> - 52) (- 1074)
           in of_int (round_half_even (x / pow2 q)) * pow2 q)"

text \<open>
  True division \<open>v / j\<close> by an \<open>int\<close>, as in line 72. Of two ints it is the quotient
  rounded to a double; a float is divided in doubles by the int converted to a double.
  A zero divisor raises, and so does an operand that is not a number.
\<close>

fun py_truediv_by_int :: "py_value \<Rightarrow> int \<Rightarrow> rat result" where
  "py_truediv_by_int (PyInt i) j =
     (if j = 0 then Inl (ZeroDivisionError ''division by zero'')
      else Inr (binary64 (of_int i / of_int j)))"
| "py_truediv_by_int (PyFloat x) j =
     (if j = 0 then Inl (ZeroDivisionError ''float division by zero'')
      else Inr (binary64 (binary64 x / binary64 (of_int j))))"
| "py_truediv_by_int v j = Inl (TypeError ''unsupported operand type(s) for /'')"

declare py_truediv_by_int.simps [simp del]

text \<open>The product \<open>a * b\<close> of two doubles.\<close>

definition float_mul :: "rat \<Rightarrow> rat \<Rightarrow> rat" where
  "float_mul a b = binary64 (a * b)"

subsection \<open>The services\<close>

text \<open>
  The answers of the services are records: the fields the handler reads from an instance
  description, a datapoint or a response are always there, as the services document them.
\<close>

record db_instance =
  DBInstanceIdentifier :: string
  AllocatedStorage :: int
  DBInstanceStatus :: string

record datapoint =
  Timestamp :: int
  Average :: rat

record metric_request =
  Namespace :: string
  MetricName :: string
  Dimensions :: "(string \<times> string) list"
  StartTime :: int
  EndTime :: int
  Period :: int
  Statistics :: "string list"

datatype mime_part =
    MIMEText string string
  | MIMEApplication "py_value list list" string

record mime_message =
  Subject :: string
  From :: string
  To :: string
  payload :: "mime_part list"

record raw_email_request =
  Source :: string
  Destinations :: py_value
  RawMessage :: mime_message

text \<open>
  The world a run sees. Times are seconds; \<open>utcnow\<close> is the reading of
  \<open>datetime.datetime.utcnow()\<close>, \<open>now_strftime\<close> the text of
  \<open>datetime.datetime.now().strftime(fmt)\<close>. \<open>boto3_client\<close> is the creation of a
  client by service name. \<open>styler_to_html\<close> is the rendering of a styled frame by
  pandas, given the column names and, for each row, its cells paired with their styles.
  \<open>ses_calls\<close> logs every request handed to \<open>send_raw_email\<close>, oldest first.
\<close>

record world =
  environ :: "(string \<times> string) list"
  utcnow :: int
  now_strftime :: "string \<Rightarrow> string"
  boto3_client :: "string \<Rightarrow> unit result"
  describe_db_instances :: "db_instance list result"
  get_metric_statistics :: "metric_request \<Rightarrow> datapoint list result"
  styler_to_html :: "string list \<Rightarrow> (py_value \<times> string) list list \<Rightarrow> string result"
  send_raw_email :: "raw_email_request \<Rightarrow> string result"
  ses_calls :: "raw_email_request list"

subsection \<open>The collector: \<open>get_rds_metrics_report\<close>\<close>

text \<open>\<open>max(xs, key=k)\<close> on a non-empty sequence: the first element of greatest key.\<close>

fun max_by_from :: "('a \<Rightarrow> int) \<Rightarrow> 'a \<Rightarrow> 'a list \<Rightarrow> 'a" where
  "max_by_from k m [] = m"
| "max_by_from k m (x # xs) = max_by_from k (if k m < k x then x else m) xs"

fun py_max_by :: "('a \<Rightarrow> int) \<Rightarrow> 'a list \<Rightarrow> 'a result" where
  "py_max_by k [] = Inl (ValueError ''max() arg is an empty sequence'')"
| "py_max_by k (x # xs) = Inr (max_by_from k x xs)"

text \<open>
  Lines 63 to 68, and again lines 79 to 86 for the second series: 0 when the response has
  no datapoints, otherwise the average of the latest datapoint in GB, two decimals.
\<close>

definition latest_gb :: "datapoint list \<Rightarrow> py_value result" where
  "latest_gb datapoints =
     (if datapoints \<noteq> [] then
        and_then (py_max_by Timestamp datapoints) (\<lambda>latest_point.
        and_then (py_truediv (Average latest_point) (1024 * 1024 * 1024)) (\<lambda>q.
        Inr (PyFloat (py_round q 2))))
      else Inr (PyInt 0))"

text \<open>
  Lines 71 to 75: the quotient, the product with 100 and the rounding, in this order,
  behind the guard.
\<close>

definition free_storage_percent :: "py_value \<Rightarrow> int \<Rightarrow> py_value result" where
  "free_storage_percent free_storage_gb allocated_storage_gb =
     (if allocated_storage_gb > 0 then
        and_then (py_truediv_by_int free_storage_gb allocated_storage_gb) (\<lambda>q.
        Inr (PyFloat (py_round (float_mul q 100) 2)))
      else Inr (PyInt 0))"

definition stats_request :: "int \<Rightarrow> string \<Rightarrow> string \<Rightarrow> metric_request" where
  "stats_request end_time metric instance_id =
     \<lparr> Namespace = ''AWS/RDS'',
       MetricName = metric,
       Dimensions = [(''DBInstanceIdentifier'', instance_id)],
       StartTime = end_time - 3600,
       EndTime = end_time,
       Period = 300,
       Statistics = [''Average''] \<rparr>"

type_synonym report_row = "(string \<times> py_value) list"

text \<open>The body of the loop over the instances: one row, or the exception of a call.\<close>

definition instance_row :: "world \<Rightarrow> int \<Rightarrow> db_instance \<Rightarrow> report_row result" where
  "instance_row w end_time instance =
     (let instance_id = DBInstanceIdentifier instance;
          allocated_storage_gb = AllocatedStorage instance;
          instance_state = DBInstanceStatus instance
      in and_then (get_metric_statistics w
                     (stats_request end_time ''FreeStorageSpace'' instance_id))
           (\<lambda>free_storage_response.
         and_then (get_metric_statistics w
                     (stats_request end_time ''FreeableMemory'' instance_id))
           (\<lambda>freeable_memory_response.
         and_then (latest_gb free_storage_response) (\<lambda>free_storage_gb.
         and_then (free_storage_percent free_storage_gb allocated_storage_gb)
           (\<lambda>free_storage_pct.
         and_then (latest_gb freeable_memory_response) (\<lambda>freeable_memory_gb.
         Inr [(''RDS Instance Name'', PyStr instance_id),
              (''Instance State'', PyStr instance_state),
              (''Allocated Space (GB)'', PyInt allocated_storage_gb),
              (''Free Storage Space (GB)'', free_storage_gb),
              (''Free Storage Space (%)'', free_storage_pct),
              (''Freeable Memory (GB)'', freeable_memory_gb)]))))))"

text \<open>The loop: rows are appended in listing order, and the first exception ends it.\<close>

fun collect_rows :: "world \<Rightarrow> int \<Rightarrow> db_instance list \<Rightarrow> report_row list result" where
  "collect_rows w end_time [] = Inr []"
| "collect_rows w end_time (instance # instances) =
     and_then (instance_row w end_time instance) (\<lambda>row.
     and_then (collect_rows w end_time instances) (\<lambda>rows.
     Inr (row # rows)))"

definition get_rds_metrics_report :: "world \<Rightarrow> report_row list result" where
  "get_rds_metrics_report w =
     and_then (boto3_client w ''rds'') (\<lambda>rds_client.
     and_then (boto3_client w ''cloudwatch'') (\<lambda>cloudwatch.
     and_then (describe_db_instances w) (\<lambda>instances.
     collect_rows w (utcnow w) instances)))"

subsection \<open>Text of numbers\<close>

definition digit_char :: "nat \<Rightarrow> char" where
  "digit_char d = char_of (48 + d)"

fun str_nat :: "nat \<Rightarrow> string" where
  "str_nat n = (if n < 10 then [digit_char n] else str_nat (n div 10) @ [digit_char (n mod 10)])"

declare str_nat.simps [simp del]

text \<open>
  The format \<open>f"{x:.2f}"\<close> of line 122: sign, integer digits, a point, two decimals.
  A \<open>str\<close> operand is a \<open>ValueError\<close>, any other non-number a \<open>TypeError\<close>.
\<close>

definition fixed2 :: "rat \<Rightarrow> string" where
  "fixed2 x =
     (let h = nat \<bar>round_half_even (x * 100)\<bar>
      in (if x < 0 then ''-'' else []) @ str_nat (h div 100) @ ''.''
         @ [digit_char (h mod 100 div 10), digit_char (h mod 10)])"

fun format_2f :: "py_value \<Rightarrow> py_value result" where
  "format_2f (PyInt i) = Inr (PyStr (fixed2 (of_int i)))"
| "format_2f (PyFloat x) = Inr (PyStr (fixed2 x))"
| "format_2f (PyStr s) = Inl (ValueError ''Unknown format code f for object of type str'')"
| "format_2f v = Inl (TypeError ''unsupported format string'')"

definition is_digit :: "char \<Rightarrow> bool" where
  "is_digit c = (48 \<le> (of_char c :: nat) \<and> (of_char c :: nat) \<le> 57)"

definition digits_value :: "string \<Rightarrow> nat" where
  "digits_value s = foldl (\<lambda>a c. 10 * a + (of_char c - 48)) 0 s"

text \<open>
  \<open>float(s)\<close> on a plain decimal literal: an optional sign, digits, and optionally a point
  and more digits. The other spellings Python accepts (surrounding blanks, exponents,
  underscores, \<open>inf\<close>, \<open>nan\<close>) are never produced by \<open>format_2f\<close> and are a
  \<open>ValueError\<close> here.
\<close>

definition float_of_string :: "string \<Rightarrow> rat result" where
  "float_of_string s =
     (let neg = (case s of c # _ \<Rightarrow> c = CHR ''-'' | [] \<Rightarrow> False);
          unsigned = (case s of c # t \<Rightarrow> if c = CHR ''-'' \<or> c = CHR ''+'' then t else s
                      | [] \<Rightarrow> s);
          ip = takeWhile (\<lambda>c. c \<noteq> CHR ''.'') unsigned;
          fp = drop (length ip + 1) unsigned
      in if (ip \<noteq> [] \<or> fp \<noteq> []) \<and> list_all is_digit ip \<and> list_all is_digit fp
         then Inr ((if neg then - 1 else 1)
                   * (of_nat (digits_value ip) + of_nat (digits_value fp) / 10 ^ length fp))
         else Inl (ValueError ''could not convert string to float''))"

fun py_float :: "py_value \<Rightarrow> rat result" where
  "py_float (PyStr s) = float_of_string s"
| "py_float (PyInt i) = Inr (of_int i)"
| "py_float (PyFloat x) = Inr x"
| "py_float v = Inl (TypeError ''float() argument must be a string or a real number'')"

subsection \<open>Strings\<close>

text \<open>\<open>s.split(sep)\<close> for a separator of one character: empty pieces are kept.\<close>

fun py_split :: "string \<Rightarrow> char \<Rightarrow> string list" where
  "py_split [] sep = [[]]"
| "py_split (c # cs) sep =
     (if c = sep then [] # py_split cs sep
      else (case py_split cs sep of
              piece # pieces \<Rightarrow> (c # piece) # pieces
            | [] \<Rightarrow> [[c]]))"

fun join_strings :: "string \<Rightarrow> string list \<Rightarrow> string" where
  "join_strings sep [] = []"
| "join_strings sep [x] = x"
| "join_strings sep (x # y # ys) = x @ sep @ join_strings sep (y # ys)"

fun str_items :: "py_value list \<Rightarrow> string list result" where
  "str_items [] = Inr []"
| "str_items (PyStr s # vs) = and_then (str_items vs) (\<lambda>ss. Inr (s # ss))"
| "str_items (v # vs) = Inl (TypeError ''sequence item: expected str instance'')"

text \<open>
  \<open>sep.join(v)\<close>: a list must hold strings only; a string is joined character by
  character; the other values are not iterable.
\<close>

fun py_join :: "string \<Rightarrow> py_value \<Rightarrow> string result" where
  "py_join sep (PyList vs) = and_then (str_items vs) (\<lambda>ss. Inr (join_strings sep ss))"
| "py_join sep (PyStr s) = Inr (join_strings sep (map (\<lambda>c. [c]) s))"
| "py_join sep v = Inl (TypeError ''can only join an iterable'')"

subsection \<open>The frame and its renderings\<close>

record data_frame =
  df_columns :: "string list"
  df_rows :: "py_value list list"

text \<open>
  \<open>pd.DataFrame(rows)\<close> for a list of dicts that all have the same keys in the same order,
  which is what the collector builds: the keys are the columns, each dict gives a row.
\<close>

definition DataFrame :: "report_row list \<Rightarrow> data_frame" where
  "DataFrame rows =
     \<lparr> df_columns = (case rows of [] \<Rightarrow> [] | r # _ \<Rightarrow> map fst r),
       df_rows = map (map snd) rows \<rparr>"

text \<open>
  \<open>df.to_csv(buffer, index=False)\<close>: a record of the column names, then one record per
  row, in order. The records are kept as lists of cells; how pandas spells a number and
  quotes a field is not modelled.
\<close>

definition to_csv :: "data_frame \<Rightarrow> py_value list list" where
  "to_csv df = map PyStr (df_columns df) # df_rows df"

fun map_result :: "('a \<Rightarrow> 'b result) \<Rightarrow> 'a list \<Rightarrow> 'b list result" where
  "map_result f [] = Inr []"
| "map_result f (x # xs) =
     and_then (f x) (\<lambda>y. and_then (map_result f xs) (\<lambda>ys. Inr (y # ys)))"

fun index_of :: "'a \<Rightarrow> 'a list \<Rightarrow> nat option" where
  "index_of a [] = None"
| "index_of a (x # xs) =
     (if x = a then Some 0 else map_option Suc (index_of a xs))"

text \<open>\<open>df[col] = df[col].apply(f)\<close>: a missing column is a \<open>KeyError\<close>.\<close>

definition apply_column ::
  "(py_value \<Rightarrow> py_value result) \<Rightarrow> string \<Rightarrow> data_frame \<Rightarrow> data_frame result" where
  "apply_column f col df =
     (case index_of col (df_columns df) of
        None \<Rightarrow> Inl (KeyError col)
      | Some i \<Rightarrow>
          and_then
            (map_result
               (\<lambda>row. if i < length row
                       then and_then (f (row ! i)) (\<lambda>v. Inr (row[i := v]))
                       else Inr row)
               (df_rows df))
            (\<lambda>rows. Inr (df\<lparr>df_rows := rows\<rparr>)))"

definition numeric_columns :: "string list" where
  "numeric_columns =
     [''Allocated Space (GB)'', ''Free Storage Space (GB)'',
      ''Free Storage Space (%)'', ''Freeable Memory (GB)'']"

text \<open>Lines 117 to 122: the loop over the numeric columns.\<close>

fun format_columns :: "string list \<Rightarrow> data_frame \<Rightarrow> data_frame result" where
  "format_columns [] df = Inr df"
| "format_columns (col # cols) df =
     and_then (apply_column format_2f col df) (format_columns cols)"

text \<open>Lines 125 to 133. The row is the frame's row, labelled with the column names.\<close>

definition highlight_storage_percent :: "(string \<times> py_value) list \<Rightarrow> string list result" where
  "highlight_storage_percent row =
     (case map_of row ''Free Storage Space (%)'' of
        None \<Rightarrow> Inl (KeyError ''Free Storage Space (%)'')
      | Some v \<Rightarrow>
          and_then (py_float v) (\<lambda>free_percent.
            if free_percent < 15 then
              Inr ['''', '''', '''', '''', ''background-color: red'', '''']
            else if free_percent < 20 then
              Inr ['''', '''', '''', '''', ''background-color: orange'', '''']
            else
              Inr ['''', '''', '''', '''', '''', '''']))"

text \<open>
  \<open>Styler.apply(f, axis=1)\<close>: \<open>f\<close> sees each row and returns one style per cell; a
  result of another length is a \<open>ValueError\<close>.
\<close>

definition style_row ::
  "string list \<Rightarrow> py_value list \<Rightarrow> (py_value \<times> string) list result" where
  "style_row cols cells =
     and_then (highlight_storage_percent (zip cols cells)) (\<lambda>styles.
       if length styles = length cells then Inr (zip cells styles)
       else Inl (ValueError ''Function returned the wrong shape''))"

definition style_apply :: "data_frame \<Rightarrow> (py_value \<times> string) list list result" where
  "style_apply df = map_result (style_row (df_columns df)) (df_rows df)"

subsection \<open>The dispatcher: \<open>send_report_email\<close>\<close>

text \<open>
  The document of lines 138 to 154, one list element per line of the literal, without the
  indentation of the source lines.
\<close>

definition html_content :: "string \<Rightarrow> string \<Rightarrow> string" where
  "html_content today html_table =
     concat (map (\<lambda>l. l @ [CHR 0x0A])
       ['''',
        ''<html>'',
        ''<head>'',
        ''<style>'',
        ''table { border-collapse: collapse; width: 100%; }'',
        ''th, td { padding: 8px; text-align: left; border-bottom: 1px solid #ddd; }'',
        ''th { background-color: #f2f2f2; }'',
        ''</style>'',
        ''</head>'',
        ''<body>'',
        ''<h2>RDS Metrics Report - '' @ today @ ''</h2>'',
        html_table,
        ''<p>This is an automated report. Please find the CSV attachment for your records.</p>'',
        ''<p><strong>Note:</strong> Red cells indicate free storage space less than 15%, orange cells indicate less than 20%.</p>'',
        ''</body>'',
        ''</html>''])"

text \<open>
  The body of the \<open>try\<close> up to the call of the mail service (lines 106 to 166): the
  request that will be submitted, or the exception raised while composing it.
\<close>

definition compose_request ::
  "world \<Rightarrow> data_frame \<Rightarrow> py_value list list \<Rightarrow> py_value \<Rightarrow> raw_email_request result" where
  "compose_request w df csv_data recipients =
     and_then (boto3_client w ''ses'') (\<lambda>ses_client.
     and_then (py_join '', '' recipients) (\<lambda>to_header.
     and_then (format_columns numeric_columns df) (\<lambda>formatted_df.
     and_then (style_apply formatted_df) (\<lambda>styled_df.
     and_then (styler_to_html w (df_columns formatted_df) styled_df) (\<lambda>html_table.
       let msg = \<lparr> Subject = ''Weekly RDS Metrics Report - '' @ now_strftime w ''%Y-%m-%d'',
                   From = ''admin01@readywire.com'',
                   To = to_header,
                   payload = [] \<rparr>;
           msg = msg\<lparr>payload := payload msg
                   @ [MIMEText (html_content (now_strftime w ''%Y-%m-%d'') html_table) ''html'']\<rparr>;
           timestamp = now_strftime w ''%Y%m%d_%H%M%S'';
           csv_filename = ''rds_metrics_report_'' @ timestamp @ ''.csv'';
           msg = msg\<lparr>payload := payload msg @ [MIMEApplication csv_data csv_filename]\<rparr>
       in Inr \<lparr> Source = From msg, Destinations = recipients, RawMessage = msg \<rparr>)))))"

text \<open>
  The whole function: the \<open>except\<close> clause turns every exception of the body into
  \<open>False\<close>. The call of \<open>send_raw_email\<close> is logged whether it raises or not; its
  result is the message id.
\<close>

definition send_report_email ::
  "world \<Rightarrow> data_frame \<Rightarrow> py_value list list \<Rightarrow> py_value \<Rightarrow> bool \<times> world" where
  "send_report_email w df csv_data recipients =
     (case compose_request w df csv_data recipients of
        Inl e \<Rightarrow> (False, w)
      | Inr request \<Rightarrow>
          (let w' = w\<lparr>ses_calls := ses_calls w @ [request]\<rparr>
           in case send_raw_email w request of
                Inl e \<Rightarrow> (False, w')
              | Inr message_id \<Rightarrow> (True, w')))"

subsection \<open>The entry point: \<open>lambda_handler\<close>\<close>

record response =
  statusCode :: int
  body :: string

text \<open>
  The event is \<open>None\<close> or a dict. Lines 187 to 193: the default is the environment
  variable, or the fixed address when it is unset, split at commas; the event's entry,
  when there is one, takes its place.
\<close>

definition resolve_recipients ::
  "world \<Rightarrow> (string \<times> py_value) list option \<Rightarrow> py_value" where
  "resolve_recipients w event =
     (let configured = (case map_of (environ w) ''EMAIL_RECIPIENTS'' of
                          Some v \<Rightarrow> v
                        | None \<Rightarrow> ''saasadmin@readywire.com'');
          recipients = PyList (map PyStr (py_split configured (CHR '','')))
      in case event of
           None \<Rightarrow> recipients
         | Some ev \<Rightarrow>
             (if ev \<noteq> [] \<and> ''recipients'' \<in> fst ` set ev
              then (case map_of ev ''recipients'' of Some r \<Rightarrow> r | None \<Rightarrow> recipients)
              else recipients))"

definition lambda_handler ::
  "world \<Rightarrow> (string \<times> py_value) list option \<Rightarrow> response \<times> world" where
  "lambda_handler w event =
     (let recipients = resolve_recipients w event
      in case get_rds_metrics_report w of
           Inl e \<Rightarrow>
             (\<lparr> statusCode = 500,
                body = ''Error in lambda_handler: '' @ str_of_error e \<rparr>, w)
         | Inr rds_metrics \<Rightarrow>
             if rds_metrics = [] then
               (\<lparr> statusCode = 200, body = ''No RDS instances found in the account.'' \<rparr>, w)
             else
               (let df = DataFrame rds_metrics;
                    csv_data = to_csv df;
                    (email_sent, w') = send_report_email w df csv_data recipients
                in (\<lparr> statusCode = 200,
                      body = ''RDS metrics report generated and ''
                             @ (if email_sent then ''email sent successfully''
                                else ''failed to send email'') @ ''.'' \<rparr>, w')))"

subsection \<open>A world for examples\<close>

text \<open>
  A world with the given environment and inventory, in which every client can be created,
  the monitoring service answers each request with the series of the requested metric,
  and the mail service answers every request with the given result.
\<close>

definition sample_world ::
  "(string \<times> string) list \<Rightarrow> db_instance list \<Rightarrow> (string \<Rightarrow> datapoint list)
     \<Rightarrow> string result \<Rightarrow> world" where
  "sample_world env instances series ses_result =
     \<lparr> environ = env,
       utcnow = 1762179000,
       now_strftime = (\<lambda>fmt. if fmt = ''%Y-%m-%d'' then ''2025-11-03'' else ''20251103_141000''),
       boto3_client = (\<lambda>service. Inr ()),
       describe_db_instances = Inr instances,
       get_metric_statistics = (\<lambda>request. Inr (series (MetricName request))),
       styler_to_html = (\<lambda>cols rows. Inr ''<table></table>''),
       send_raw_email = (\<lambda>request. ses_result),
       ses_calls = [] \<rparr>"

text \<open>A series for examples: a single datapoint of 12 GB, for any metric.\<close>

definition series_12gb :: "string \<Rightarrow> datapoint list" where
  "series_12gb metric = [\<lparr>Timestamp = 1, Average = 12884901888\<rparr>]"

section \<open>Properties\<close>

subsection \<open>Sequencing and rational arithmetic\<close>

lemma and_then_Inr [simp]: "and_then (Inr x) f = f x"
  by (simp add: and_then_def)

lemma and_then_Inl [simp]: "and_then (Inl e) f = Inl e"
  by (simp add: and_then_def)

lemma and_then_eq_Inr: "and_then r f = Inr y \<longleftrightarrow> (\<exists>x. r = Inr x \<and> f x = Inr y)"
  by (cases r) simp_all

lemma floor_rat_numeral_div [simp]:
  "\<lfloor>(numeral a / numeral b :: rat)\<rfloor> = numeral a div numeral b"
  using floor_divide_of_int_eq [of "numeral a" "numeral b", where ?'a = rat] by simp

lemma floor_rat_neg_numeral_div [simp]:
  "\<lfloor>(- (numeral a / numeral b) :: rat)\<rfloor> = - numeral a div numeral b"
  using floor_divide_of_int_eq [of "- numeral a" "numeral b", where ?'a = rat] by simp

lemma floor_rat_one_div [simp]:
  "\<lfloor>(1 / numeral b :: rat)\<rfloor> = 1 div numeral b"
  using floor_divide_of_int_eq [of 1 "numeral b", where ?'a = rat] by simp

text \<open>The equations that evaluate the arithmetic of doubles on numerals.\<close>

lemmas float_eval =
  py_truediv_by_int.simps binary64_def float_mul_def floor_log2_def pow2_def
  round_half_even_def py_round_def Let_def bit_length.simps ceiling_def

subsection \<open>Rounding and the text of numbers\<close>

lemma of_char_digit_char: "d < 10 \<Longrightarrow> (of_char (digit_char d) :: nat) = 48 + d"
  by (simp add: digit_char_def)

lemma is_digit_digit_char: "d < 10 \<Longrightarrow> is_digit (digit_char d)"
  by (simp add: is_digit_def of_char_digit_char)

lemma digit_char_not_point: "d < 10 \<Longrightarrow> digit_char d \<noteq> CHR ''.''"
proof
  assume d: "d < 10" and eq: "digit_char d = CHR ''.''"
  from eq have "(of_char (digit_char d) :: nat) = of_char (CHR ''.'')" by simp
  with d show False by (simp add: of_char_digit_char)
qed

lemma digit_char_not_sign: "d < 10 \<Longrightarrow> digit_char d \<noteq> CHR ''-'' \<and> digit_char d \<noteq> CHR ''+''"
proof (intro conjI notI)
  assume d: "d < 10" and eq: "digit_char d = CHR ''-''"
  from eq have "(of_char (digit_char d) :: nat) = of_char (CHR ''-'')" by simp
  with d show False by (simp add: of_char_digit_char)
next
  assume d: "d < 10" and eq: "digit_char d = CHR ''+''"
  from eq have "(of_char (digit_char d) :: nat) = of_char (CHR ''+'')" by simp
  with d show False by (simp add: of_char_digit_char)
qed

lemma is_digit_not_point: "is_digit c \<Longrightarrow> c \<noteq> CHR ''.''"
  by (auto simp: is_digit_def)

lemma str_nat_digits: "list_all is_digit (str_nat n)"
proof (induction n rule: str_nat.induct)
  case (1 n)
  show ?case
  proof (cases "n < 10")
    case True
    then show ?thesis by (subst str_nat.simps) (simp add: is_digit_digit_char)
  next
    case False
    with 1 have "list_all is_digit (str_nat (n div 10))" by simp
    with False show ?thesis by (subst str_nat.simps) (simp add: is_digit_digit_char)
  qed
qed

lemma str_nat_hd: "\<exists>d t. d < 10 \<and> str_nat n = digit_char d # t"
proof (induction n rule: str_nat.induct)
  case (1 n)
  show ?case
  proof (cases "n < 10")
    case True
    then show ?thesis by (subst str_nat.simps) auto
  next
    case False
    with 1 obtain d t where "d < 10" "str_nat (n div 10) = digit_char d # t" by auto
    with False show ?thesis by (subst str_nat.simps) auto
  qed
qed

lemma digits_value_snoc:
  "digits_value (s @ [c]) = 10 * digits_value s + (of_char c - 48)"
  by (simp add: digits_value_def)

lemma digits_value_str_nat: "digits_value (str_nat n) = n"
proof (induction n rule: str_nat.induct)
  case (1 n)
  show ?case
  proof (cases "n < 10")
    case True
    then show ?thesis
      by (subst str_nat.simps) (simp add: digits_value_def of_char_digit_char)
  next
    case False
    with 1 have "digits_value (str_nat (n div 10)) = n div 10" by simp
    with False show ?thesis
      by (subst str_nat.simps) (simp add: digits_value_snoc of_char_digit_char)
  qed
qed

lemma round_half_even_nonneg: "0 \<le> x \<Longrightarrow> 0 \<le> round_half_even x"
  by (auto simp: round_half_even_def Let_def)

lemma round_half_even_neg: "x < 0 \<Longrightarrow> round_half_even x \<le> 0"
proof -
  assume "x < 0"
  then have "\<lfloor>x\<rfloor> < 0" by (simp add: floor_less_iff)
  then show ?thesis by (auto simp: round_half_even_def Let_def)
qed

lemma round_half_even_of_int: "round_half_even (of_int n) = n"
  by (simp add: round_half_even_def Let_def)

lemma py_round_idem: "py_round (py_round x 2) 2 = py_round x 2"
  by (simp add: py_round_def round_half_even_of_int)

lemma py_round_of_int: "py_round (of_int n) 2 = of_int n"
proof -
  have "round_half_even (of_int n * 100) = n * 100"
    using round_half_even_of_int [of "n * 100"] by simp
  then show ?thesis by (simp add: py_round_def)
qed

lemma float_of_unsigned:
  assumes "list_all is_digit ip" "list_all is_digit fp" "ip \<noteq> []"
    and "\<exists>c t. ip = c # t \<and> c \<noteq> CHR ''-'' \<and> c \<noteq> CHR ''+''"
  shows "float_of_string (ip @ ''.'' @ fp) =
           Inr (of_nat (digits_value ip) + of_nat (digits_value fp) / 10 ^ length fp)"
proof -
  from assms(4) obtain c t where ip: "ip = c # t" and c: "c \<noteq> CHR ''-''" "c \<noteq> CHR ''+''" by blast
  have tw: "takeWhile (\<lambda>c. c \<noteq> CHR ''.'') (ip @ ''.'' @ fp) = ip"
    using assms(1) by (simp add: takeWhile_append2 list_all_iff is_digit_not_point)
  have "float_of_string ((c # t) @ ''.'' @ fp) =
           Inr (of_nat (digits_value ip) + of_nat (digits_value fp) / 10 ^ length fp)"
    unfolding float_of_string_def using c tw assms(1,2) ip
    by (simp add: Let_def)
  then show ?thesis by (simp add: ip)
qed

lemma float_of_negative:
  assumes "list_all is_digit ip" "list_all is_digit fp" "ip \<noteq> []"
  shows "float_of_string (''-'' @ ip @ ''.'' @ fp) =
           Inr (- (of_nat (digits_value ip) + of_nat (digits_value fp) / 10 ^ length fp))"
proof -
  have tw: "takeWhile (\<lambda>c. c \<noteq> CHR ''.'') (ip @ ''.'' @ fp) = ip"
    using assms(1) by (simp add: takeWhile_append2 list_all_iff is_digit_not_point)
  show ?thesis
    unfolding float_of_string_def using tw assms
    by (simp add: Let_def)
qed

lemma two_digits_value:
  "digits_value [digit_char (h mod 100 div 10), digit_char (h mod 10)] = h mod 100"
proof -
  have a: "h mod 100 div 10 < 10" by (simp add: less_mult_imp_div_less)
  have b: "h mod 10 < 10" by simp
  have "h mod 10 = h mod 100 mod 10" by (simp add: mod_mod_cancel)
  then have "10 * (h mod 100 div 10) + h mod 10 = h mod 100"
    by (simp only: mult_div_mod_eq)
  then show ?thesis
    by (simp add: digits_value_def of_char_digit_char [OF a] of_char_digit_char [OF b])
qed

lemma float_of_fixed2: "float_of_string (fixed2 x) = Inr (py_round x 2)"
proof -
  define h where "h = nat \<bar>round_half_even (x * 100)\<bar>"
  define ip where "ip = str_nat (h div 100)"
  define fp where "fp = [digit_char (h mod 100 div 10), digit_char (h mod 10)]"
  have ipd: "list_all is_digit ip" by (simp add: ip_def str_nat_digits)
  have fpd: "list_all is_digit fp"
    by (simp add: fp_def is_digit_digit_char less_mult_imp_div_less)
  obtain d t where d: "d < 10" and ipc: "ip = digit_char d # t"
    using str_nat_hd [of "h div 100"] by (auto simp: ip_def)
  have ipn: "ip \<noteq> []" using ipc by simp
  have hd: "\<exists>c t. ip = c # t \<and> c \<noteq> CHR ''-'' \<and> c \<noteq> CHR ''+''"
    using ipc digit_char_not_sign [OF d] by blast
  have val: "(of_nat (digits_value ip) + of_nat (digits_value fp) / 10 ^ length fp :: rat)
        = of_nat h / 100"
  proof -
    have "digits_value ip = h div 100" by (simp add: ip_def digits_value_str_nat)
    moreover have "digits_value fp = h mod 100" by (simp add: fp_def two_digits_value)
    moreover have "length fp = 2" by (simp add: fp_def)
    moreover have "(of_nat (h div 100) + of_nat (h mod 100) / 100 :: rat) = of_nat h / 100"
    proof -
      have "(of_nat h :: rat) = of_nat (h div 100 * 100 + h mod 100)" by simp
      also have "\<dots> = of_nat (h div 100) * 100 + of_nat (h mod 100)"
        by (simp only: of_nat_add of_nat_mult of_nat_numeral)
      finally show ?thesis by (simp add: field_simps)
    qed
    ultimately show ?thesis by simp
  qed
  show ?thesis
  proof (cases "x < 0")
    case True
    then have "round_half_even (x * 100) \<le> 0"
      by (intro round_half_even_neg) (simp add: mult_less_0_iff)
    then have "(of_nat h :: rat) = - of_int (round_half_even (x * 100))"
      by (simp add: h_def)
    moreover have "fixed2 x = ''-'' @ ip @ ''.'' @ fp"
      using True by (simp add: fixed2_def Let_def h_def ip_def fp_def)
    ultimately show ?thesis
      using float_of_negative [OF ipd fpd ipn] val by (simp add: py_round_def)
  next
    case False
    then have "0 \<le> round_half_even (x * 100)"
      by (intro round_half_even_nonneg) simp
    then have "(of_nat h :: rat) = of_int (round_half_even (x * 100))"
      by (simp add: h_def)
    moreover have "fixed2 x = ip @ ''.'' @ fp"
      using False by (simp add: fixed2_def Let_def h_def ip_def fp_def)
    ultimately show ?thesis
      using float_of_unsigned [OF ipd fpd ipn hd] val by (simp add: py_round_def)
  qed
qed

subsection \<open>Doubles\<close>

lemma bit_length_nonneg: "0 \<le> bit_length n"
proof (induction n rule: bit_length.induct)
  case (1 n)
  show ?case
  proof (cases "n \<le> 0")
    case True
    then show ?thesis by (subst bit_length.simps) simp
  next
    case False
    with 1 have "0 \<le> bit_length (n div 2)" by simp
    with False show ?thesis by (subst bit_length.simps) simp
  qed
qed

lemma bit_length_pos: "0 < n \<Longrightarrow> 0 < bit_length n"
  using bit_length_nonneg [of "n div 2"] by (subst bit_length.simps) simp

lemma bit_length_bounds:
  "0 < n \<Longrightarrow> 2 ^ nat (bit_length n - 1) \<le> n \<and> n < 2 ^ nat (bit_length n)"
proof (induction n rule: bit_length.induct)
  case (1 n)
  show ?case
  proof (cases "n = 1")
    case True
    have "bit_length 1 = 1"
      by (simp add: bit_length.simps [of 1] bit_length.simps [of 0])
    with True show ?thesis by simp
  next
    case False
    with "1.prems" have h: "0 < n div 2" by simp
    with 1 have ih: "2 ^ nat (bit_length (n div 2) - 1) \<le> n div 2"
      "n div 2 < 2 ^ nat (bit_length (n div 2))" by simp_all
    from bit_length_pos [OF h] have p: "0 < bit_length (n div 2)" .
    have bl: "bit_length n = 1 + bit_length (n div 2)"
      using "1.prems" by (subst bit_length.simps) simp
    have e1: "nat (bit_length n - 1) = Suc (nat (bit_length (n div 2) - 1))"
      using p bl by simp
    have e2: "nat (bit_length n) = Suc (nat (bit_length (n div 2)))"
      using p bl by simp
    have "2 * 2 ^ nat (bit_length (n div 2) - 1) \<le> 2 * (n div 2)" using ih(1) by simp
    also have "\<dots> \<le> n" by simp
    finally have lo: "2 ^ nat (bit_length n - 1) \<le> n" by (simp add: e1)
    have "n div 2 + 1 \<le> 2 ^ nat (bit_length (n div 2))" using ih(2) by simp
    then have "2 * (n div 2) + 2 \<le> 2 * 2 ^ nat (bit_length (n div 2))" by simp
    moreover have "n < 2 * (n div 2) + 2" by presburger
    ultimately have hi: "n < 2 ^ nat (bit_length n)" by (simp add: e2)
    from lo hi show ?thesis ..
  qed
qed


lemma floor_log2_bounds:
  assumes "0 < x"
  shows "pow2 (floor_log2 x) \<le> x" and "x < pow2 (floor_log2 x + 1)"
proof -
  have "pow2 (floor_log2 x) \<le> x \<and> x < pow2 (floor_log2 x + 1)"
  proof (cases "1 \<le> x")
    case True
    define n where "n = \<lfloor>x\<rfloor>"
    define k where "k = bit_length n"
    from True have n: "0 < n" by (simp add: n_def)
    from bit_length_pos [OF n] have k: "0 < k" by (simp add: k_def)
    from bit_length_bounds [OF n] have lo: "2 ^ nat (k - 1) \<le> n" and hi: "n < 2 ^ nat k"
      by (simp_all add: k_def)
    have fl: "floor_log2 x = k - 1" using True by (simp add: floor_log2_def n_def k_def)
    have "(2 :: rat) ^ nat (k - 1) = of_int (2 ^ nat (k - 1))" by simp
    also have "\<dots> \<le> of_int n" using lo by (simp only: of_int_le_iff)
    also have "\<dots> \<le> x" by (simp add: n_def)
    finally have a: "pow2 (k - 1) \<le> x" using k by (simp add: pow2_def)
    have "x < of_int (n + 1)" using floor_correct [of x] by (simp add: n_def)
    also have "\<dots> \<le> of_int (2 ^ nat k)"
    proof -
      from hi have "n + 1 \<le> 2 ^ nat k" by simp
      then show ?thesis by (simp only: of_int_le_iff)
    qed
    also have "\<dots> = (2 :: rat) ^ nat k" by simp
    finally have b: "x < pow2 k" using k by (simp add: pow2_def)
    from a b fl show ?thesis by simp
  next
    case False
    define y where "y = 1 / x"
    define c where "c = \<lceil>y\<rceil>"
    define k where "k = bit_length (c - 1)"
    from False assms have y1: "1 < y" by (simp add: y_def)
    then have c2: "0 < c - 1" by (simp add: c_def less_ceiling_iff)
    from bit_length_pos [OF c2] have k: "0 < k" by (simp add: k_def)
    from bit_length_bounds [OF c2] have lo: "2 ^ nat (k - 1) \<le> c - 1" and hi: "c - 1 < 2 ^ nat k"
      by (simp_all add: k_def)
    have fl: "floor_log2 x = - k" using False by (simp add: floor_log2_def y_def c_def k_def)
    have x: "x = 1 / y" by (simp add: y_def)
    have ypos: "0 < y" using y1 by simp
    have "y \<le> of_int c" by (simp add: c_def)
    also have "\<dots> \<le> of_int (2 ^ nat k)"
    proof -
      from hi have "c \<le> 2 ^ nat k" by simp
      then show ?thesis by (simp only: of_int_le_iff)
    qed
    also have "\<dots> = (2 :: rat) ^ nat k" by simp
    finally have "y \<le> 2 ^ nat k" .
    then have "1 / 2 ^ nat k \<le> 1 / y" using ypos by (simp add: frac_le)
    then have a: "pow2 (- k) \<le> x" using k by (simp add: pow2_def x)
    have b: "x < pow2 (- k + 1)"
    proof (cases "k = 1")
      case True
      with False show ?thesis by (simp add: pow2_def)
    next
      case k1: False
      with k have k2: "1 < k" by simp
      have "(2 :: rat) ^ nat (k - 1) = of_int (2 ^ nat (k - 1))" by simp
      also have "\<dots> \<le> of_int (c - 1)" using lo by (simp only: of_int_le_iff)
      also have "\<dots> = of_int c - 1" by simp
      also have "\<dots> < y" using ceiling_correct [of y] by (simp add: c_def)
      finally have "2 ^ nat (k - 1) < y" .
      then have "1 / y < 1 / 2 ^ nat (k - 1)" by (simp add: frac_less2)
      moreover have "pow2 (- k + 1) = 1 / 2 ^ nat (k - 1)"
        using k2 by (simp add: pow2_def)
      ultimately show ?thesis by (simp add: x)
    qed
    from a b fl show ?thesis by simp
  qed
  then show "pow2 (floor_log2 x) \<le> x" and "x < pow2 (floor_log2 x + 1)" by simp_all
qed


lemma round_half_even_nearest: "\<bar>of_int (round_half_even y) - y\<bar> \<le> 1 / 2"
proof -
  define r where "r = y - of_int \<lfloor>y\<rfloor>"
  have r: "0 \<le> r" "r < 1" using floor_correct [of y] by (simp_all add: r_def)
  have y: "y = of_int \<lfloor>y\<rfloor> + r" by (simp add: r_def)
  consider "r < 1 / 2" | "1 / 2 < r" | "r = 1 / 2" by linarith
  then show ?thesis
  proof cases
    case 1
    then have "round_half_even y = \<lfloor>y\<rfloor>" by (simp add: round_half_even_def Let_def r_def)
    with 1 r show ?thesis by (simp add: r_def)
  next
    case 2
    then have "round_half_even y = \<lfloor>y\<rfloor> + 1" by (simp add: round_half_even_def Let_def r_def)
    with 2 r show ?thesis by (simp add: r_def)
  next
    case 3
    then have "round_half_even y = \<lfloor>y\<rfloor> \<or> round_half_even y = \<lfloor>y\<rfloor> + 1"
      by (simp add: round_half_even_def Let_def r_def)
    with 3 show ?thesis by (auto simp: r_def)
  qed
qed

lemma pow2_pos: "0 < pow2 k"
  by (simp add: pow2_def)

text \<open>
  \<open>binary64 x\<close> is a multiple of the quantum \<open>2 ^ q\<close> of \<open>x\<close>, at most half a quantum
  away from \<open>x\<close>.
\<close>

lemma binary64_nearest:
  assumes "x \<noteq> 0" and "q = max (floor_log2 \<bar>x\<bar> - 52) (- 1074)"
  shows "\<exists>m. binary64 x = of_int m * pow2 q" and "\<bar>binary64 x - x\<bar> \<le> pow2 q / 2"
proof -
  let ?m = "round_half_even (x / pow2 q)"
  have b: "binary64 x = of_int ?m * pow2 q" using assms by (simp add: binary64_def Let_def)
  then show "\<exists>m. binary64 x = of_int m * pow2 q" by blast
  have p: "0 < pow2 q" by (rule pow2_pos)
  have "binary64 x - x = (of_int ?m - x / pow2 q) * pow2 q"
    using p by (simp add: b field_simps)
  then have "\<bar>binary64 x - x\<bar> = \<bar>of_int ?m - x / pow2 q\<bar> * pow2 q"
    using p by (simp add: abs_mult)
  also have "\<dots> \<le> 1 / 2 * pow2 q"
    using round_half_even_nearest [of "x / pow2 q"] p by (intro mult_right_mono) simp_all
  finally show "\<bar>binary64 x - x\<bar> \<le> pow2 q / 2" by simp
qed

subsection \<open>The collector\<close>

lemma max_by_from_mem: "max_by_from k m xs \<in> set (m # xs)"
  by (induction xs arbitrary: m) (auto split: if_splits)

lemma max_by_from_ge_start: "k m \<le> k (max_by_from k m xs)"
proof (induction xs arbitrary: m)
  case Nil show ?case by simp
next
  case (Cons x xs)
  have "k m \<le> k (if k m < k x then x else m)" by simp
  also have "\<dots> \<le> k (max_by_from k (if k m < k x then x else m) xs)" by (rule Cons.IH)
  finally show ?case by simp
qed

lemma max_by_from_greatest: "e \<in> set (m # xs) \<Longrightarrow> k e \<le> k (max_by_from k m xs)"
proof (induction xs arbitrary: m)
  case Nil then show ?case by simp
next
  case (Cons x xs)
  let ?m' = "if k m < k x then x else m"
  from Cons.prems consider "e = m" | "e = x" | "e \<in> set xs" by auto
  then show ?case
  proof cases
    case 1
    have "k m \<le> k ?m'" by simp
    also have "\<dots> \<le> k (max_by_from k ?m' xs)" by (rule max_by_from_ge_start)
    finally show ?thesis using 1 by simp
  next
    case 2
    have "k x \<le> k ?m'" by simp
    also have "\<dots> \<le> k (max_by_from k ?m' xs)" by (rule max_by_from_ge_start)
    finally show ?thesis using 2 by simp
  next
    case 3
    then have "e \<in> set (?m' # xs)" by simp
    then have "k e \<le> k (max_by_from k ?m' xs)" by (rule Cons.IH)
    then show ?thesis by simp
  qed
qed

lemma latest_gb_Nil: "latest_gb [] = Inr (PyInt 0)"
  by (simp add: latest_gb_def)

lemma latest_gb_Cons:
  "latest_gb (d # ds) =
     Inr (PyFloat (py_round (Average (max_by_from Timestamp d ds) / 1073741824) 2))"
  by (simp add: latest_gb_def py_truediv_def)

lemma latest_gb_cases:
  "latest_gb dps = Inr (PyInt 0) \<and> dps = [] \<or>
   (\<exists>d ds. dps = d # ds \<and>
      latest_gb dps = Inr (PyFloat (py_round (Average (max_by_from Timestamp d ds) / 1073741824) 2)))"
  by (cases dps) (simp_all add: latest_gb_Nil latest_gb_Cons)

lemma latest_gb_num: "\<exists>g x. latest_gb dps = Inr g \<and> num_of g = Inr x"
  using latest_gb_cases [of dps] by auto

lemma py_truediv_by_int_number:
  "num_of g = Inr x \<Longrightarrow> a \<noteq> 0 \<Longrightarrow> \<exists>q. py_truediv_by_int g a = Inr q"
  by (cases g) (simp_all add: py_truediv_by_int.simps)

lemma free_storage_percent_eq:
  "num_of g = Inr x \<Longrightarrow>
   free_storage_percent g a =
     Inr (if 0 < a
          then PyFloat (py_round (float_mul (projr (py_truediv_by_int g a)) 100) 2)
          else PyInt 0)"
  by (cases g) (simp_all add: free_storage_percent_def py_truediv_by_int.simps)

lemma free_storage_percent_nonpos: "a \<le> 0 \<Longrightarrow> free_storage_percent g a = Inr (PyInt 0)"
  by (simp add: free_storage_percent_def)

lemma free_storage_percent_value:
  assumes "0 < a"
    and "py_round (float_mul (projr (py_truediv_by_int (PyFloat x) a)) 100) 2 = p"
  shows "free_storage_percent (PyFloat x) a = Inr (PyFloat p)"
  using assms free_storage_percent_eq [of "PyFloat x" x a] by simp

text \<open>
  Two values where the doubles decide: 29.99 / 200 and 199.95 / 1000 fall just below
  0.14995 and 0.19995, so the percentages are 14.99 and 19.99, not 15 and 20.
\<close>

lemma free_storage_percent_2999_of_200:
  "free_storage_percent (PyFloat (2999 / 100)) 200 = Inr (PyFloat (1499 / 100))"
  by (rule free_storage_percent_value) (simp_all add: float_eval)

lemma free_storage_percent_19995_of_1000:
  "free_storage_percent (PyFloat (19995 / 100)) 1000 = Inr (PyFloat (1999 / 100))"
  by (rule free_storage_percent_value) (simp_all add: float_eval)

lemma binary64_tenth: "binary64 (1 / 10) = 3602879701896397 / 36028797018963968"
  by (simp add: float_eval)

lemma instance_row_eq:
  assumes fs: "get_metric_statistics w
                 (stats_request t ''FreeStorageSpace'' (DBInstanceIdentifier inst)) = Inr fs"
    and fm: "get_metric_statistics w
                 (stats_request t ''FreeableMemory'' (DBInstanceIdentifier inst)) = Inr fm"
    and g: "latest_gb fs = Inr g" and x: "num_of g = Inr x" and m: "latest_gb fm = Inr m"
  shows "instance_row w t inst =
     Inr [(''RDS Instance Name'', PyStr (DBInstanceIdentifier inst)),
          (''Instance State'', PyStr (DBInstanceStatus inst)),
          (''Allocated Space (GB)'', PyInt (AllocatedStorage inst)),
          (''Free Storage Space (GB)'', g),
          (''Free Storage Space (%)'',
             if 0 < AllocatedStorage inst
             then PyFloat (py_round (float_mul
                    (projr (py_truediv_by_int g (AllocatedStorage inst))) 100) 2)
             else PyInt 0),
          (''Freeable Memory (GB)'', m)]"
  by (simp add: instance_row_def Let_def fs fm g m free_storage_percent_eq [OF x])

lemma instance_row_Inr:
  assumes "instance_row w t inst = Inr row"
  shows "\<exists>fs fm. get_metric_statistics w
                 (stats_request t ''FreeStorageSpace'' (DBInstanceIdentifier inst)) = Inr fs
       \<and> get_metric_statistics w
                 (stats_request t ''FreeableMemory'' (DBInstanceIdentifier inst)) = Inr fm"
  using assms by (auto simp: instance_row_def Let_def and_then_eq_Inr)

lemma collect_rows_nth:
  "collect_rows w t insts = Inr rows \<Longrightarrow>
   length rows = length insts \<and> (\<forall>i < length insts. instance_row w t (insts ! i) = Inr (rows ! i))"
proof (induction insts arbitrary: rows)
  case Nil then show ?case by simp
next
  case (Cons a insts)
  from Cons.prems obtain r rs where r: "instance_row w t a = Inr r"
    and rs: "collect_rows w t insts = Inr rs" and rows: "rows = r # rs"
    by (auto simp: and_then_eq_Inr)
  from Cons.IH [OF rs] have len: "length rs = length insts"
    and nth: "\<forall>i < length insts. instance_row w t (insts ! i) = Inr (rs ! i)" by simp_all
  show ?case
  proof (intro conjI allI impI)
    show "length rows = length (a # insts)" using len rows by simp
  next
    fix i assume "i < length (a # insts)"
    then show "instance_row w t ((a # insts) ! i) = Inr (rows ! i)"
      using r nth rows by (cases i) simp_all
  qed
qed

lemma report_rows:
  assumes "get_rds_metrics_report w = Inr rows" and "describe_db_instances w = Inr instances"
  shows "length rows = length instances"
    and "i < length instances \<Longrightarrow> instance_row w (utcnow w) (instances ! i) = Inr (rows ! i)"
proof -
  from assms have "collect_rows w (utcnow w) instances = Inr rows"
    by (auto simp: get_rds_metrics_report_def and_then_eq_Inr)
  from collect_rows_nth [OF this]
  show "length rows = length instances"
    and "i < length instances \<Longrightarrow> instance_row w (utcnow w) (instances ! i) = Inr (rows ! i)"
    by simp_all
qed

lemma instance_row_shape:
  assumes "instance_row w t inst = Inr row"
  shows "\<exists>fs fm g x m.
      get_metric_statistics w
         (stats_request t ''FreeStorageSpace'' (DBInstanceIdentifier inst)) = Inr fs
    \<and> get_metric_statistics w
         (stats_request t ''FreeableMemory'' (DBInstanceIdentifier inst)) = Inr fm
    \<and> latest_gb fs = Inr g \<and> num_of g = Inr x \<and> latest_gb fm = Inr m
    \<and> row = [(''RDS Instance Name'', PyStr (DBInstanceIdentifier inst)),
          (''Instance State'', PyStr (DBInstanceStatus inst)),
          (''Allocated Space (GB)'', PyInt (AllocatedStorage inst)),
          (''Free Storage Space (GB)'', g),
          (''Free Storage Space (%)'',
             if 0 < AllocatedStorage inst
             then PyFloat (py_round (float_mul
                    (projr (py_truediv_by_int g (AllocatedStorage inst))) 100) 2)
             else PyInt 0),
          (''Freeable Memory (GB)'', m)]"
proof -
  from instance_row_Inr [OF assms] obtain fs fm
    where fs: "get_metric_statistics w
         (stats_request t ''FreeStorageSpace'' (DBInstanceIdentifier inst)) = Inr fs"
      and fm: "get_metric_statistics w
         (stats_request t ''FreeableMemory'' (DBInstanceIdentifier inst)) = Inr fm" by blast
  obtain g x where g: "latest_gb fs = Inr g" and x: "num_of g = Inr x"
    using latest_gb_num by blast
  obtain m y where m: "latest_gb fm = Inr m" and y: "num_of m = Inr y"
    using latest_gb_num by blast
  from instance_row_eq [OF fs fm g x m] assms fs fm g x m show ?thesis by auto
qed

subsection \<open>Claims about the collector\<close>

text \<open>
  Claim C1. For the record of every listed instance in a report, the allocated storage
  being a size and so not negative: when the allocated storage is 0 the free storage
  percentage is exactly the integer 0, and there no division takes place, whatever the
  operand; otherwise it is the record's free storage in GB divided by the allocated
  storage, times 100, rounded to 2 decimals, each step as Python does it on doubles.
\<close>

theorem free_storage_percent_guard:
  assumes "get_rds_metrics_report w = Inr rows"
    and "describe_db_instances w = Inr instances"
    and "i < length instances"
    and "0 \<le> AllocatedStorage (instances ! i)"
  shows "\<exists>g. map_of (rows ! i) ''Free Storage Space (GB)'' = Some g
       \<and> (AllocatedStorage (instances ! i) = 0 \<longrightarrow>
            map_of (rows ! i) ''Free Storage Space (%)'' = Some (PyInt 0)
          \<and> (\<forall>v. free_storage_percent v (AllocatedStorage (instances ! i)) = Inr (PyInt 0)))
       \<and> (AllocatedStorage (instances ! i) \<noteq> 0 \<longrightarrow>
            (\<exists>q. py_truediv_by_int g (AllocatedStorage (instances ! i)) = Inr q
                \<and> map_of (rows ! i) ''Free Storage Space (%)'' =
                    Some (PyFloat (py_round (float_mul q 100) 2))))"
proof -
  let ?a = "AllocatedStorage (instances ! i)"
  from report_rows(2) [OF assms(1,2,3)]
  have "instance_row w (utcnow w) (instances ! i) = Inr (rows ! i)" .
  from instance_row_shape [OF this] obtain fs fm g x m where
    g: "num_of g = Inr x" and
    row: "rows ! i = [(''RDS Instance Name'', PyStr (DBInstanceIdentifier (instances ! i))),
          (''Instance State'', PyStr (DBInstanceStatus (instances ! i))),
          (''Allocated Space (GB)'', PyInt ?a),
          (''Free Storage Space (GB)'', g),
          (''Free Storage Space (%)'',
             if 0 < ?a
             then PyFloat (py_round (float_mul (projr (py_truediv_by_int g ?a)) 100) 2)
             else PyInt 0),
          (''Freeable Memory (GB)'', m)]"
    by blast
  have a: "map_of (rows ! i) ''Free Storage Space (GB)'' = Some g"
    by (simp add: row)
  have z: "?a = 0 \<longrightarrow>
            map_of (rows ! i) ''Free Storage Space (%)'' = Some (PyInt 0)
          \<and> (\<forall>v. free_storage_percent v ?a = Inr (PyInt 0))"
    by (simp add: row free_storage_percent_nonpos)
  have p: "\<exists>q. py_truediv_by_int g ?a = Inr q
                \<and> map_of (rows ! i) ''Free Storage Space (%)'' =
                    Some (PyFloat (py_round (float_mul q 100) 2))"
    if nz: "?a \<noteq> 0"
  proof -
    from py_truediv_by_int_number [OF g nz] obtain q where
      q: "py_truediv_by_int g ?a = Inr q" by blast
    from nz assms(4) have "0 < ?a" by simp
    then have "map_of (rows ! i) ''Free Storage Space (%)'' =
                    Some (PyFloat (py_round (float_mul q 100) 2))"
      by (simp add: row q)
    with q show ?thesis by blast
  qed
  from a z p show ?thesis by blast
qed

lemma sample_report_one:
  "get_rds_metrics_report
     (sample_world env [\<lparr>DBInstanceIdentifier = n, AllocatedStorage = a, DBInstanceStatus = s\<rparr>]
        series ses) =
   and_then (latest_gb (series ''FreeStorageSpace'')) (\<lambda>g.
   and_then (free_storage_percent g a) (\<lambda>p.
   and_then (latest_gb (series ''FreeableMemory'')) (\<lambda>m.
     Inr [[(''RDS Instance Name'', PyStr n),
           (''Instance State'', PyStr s),
           (''Allocated Space (GB)'', PyInt a),
           (''Free Storage Space (GB)'', g),
           (''Free Storage Space (%)'', p),
           (''Freeable Memory (GB)'', m)]])))"
  by (simp add: get_rds_metrics_report_def sample_world_def instance_row_def stats_request_def
      Let_def and_then_def split: sum.splits)

lemma latest_gb_spec:
  assumes "latest_gb dps = Inr g"
  shows "(dps = [] \<longrightarrow> g = PyInt 0) \<and>
         (dps \<noteq> [] \<longrightarrow> (\<exists>d \<in> set dps. (\<forall>e \<in> set dps. Timestamp e \<le> Timestamp d) \<and>
                          g = PyFloat (py_round (Average d / 2 ^ 30) 2)))"
proof (cases dps)
  case Nil
  with assms show ?thesis by (simp add: latest_gb_Nil)
next
  case (Cons a ds)
  let ?d = "max_by_from Timestamp a ds"
  have mem: "?d \<in> set dps" using max_by_from_mem [of Timestamp a ds] Cons by simp
  have top: "\<forall>e \<in> set dps. Timestamp e \<le> Timestamp ?d"
    using max_by_from_greatest [of _ a ds Timestamp] Cons by simp
  have "g = PyFloat (py_round (Average ?d / 2 ^ 30) 2)"
    using assms Cons by (simp add: latest_gb_Cons)
  with mem top Cons show ?thesis by blast
qed

text \<open>
  Claim C3. Once the monitoring service has answered both requests of an instance, the
  row is produced (nothing is raised), and each of its two GB values is the integer 0
  when the series has no datapoints, and otherwise the average of a datapoint of greatest
  timestamp, divided by \<open>2 ^ 30\<close> and rounded to 2 decimals.
\<close>

theorem latest_datapoint_in_gb:
  assumes "get_metric_statistics w
             (stats_request t ''FreeStorageSpace'' (DBInstanceIdentifier inst)) = Inr fs"
    and "get_metric_statistics w
             (stats_request t ''FreeableMemory'' (DBInstanceIdentifier inst)) = Inr fm"
  shows "\<exists>row g m. instance_row w t inst = Inr row
      \<and> map_of row ''Free Storage Space (GB)'' = Some g
      \<and> map_of row ''Freeable Memory (GB)'' = Some m
      \<and> (fs = [] \<longrightarrow> g = PyInt 0)
      \<and> (fs \<noteq> [] \<longrightarrow> (\<exists>d \<in> set fs. (\<forall>e \<in> set fs. Timestamp e \<le> Timestamp d) \<and>
                          g = PyFloat (py_round (Average d / 2 ^ 30) 2)))
      \<and> (fm = [] \<longrightarrow> m = PyInt 0)
      \<and> (fm \<noteq> [] \<longrightarrow> (\<exists>d \<in> set fm. (\<forall>e \<in> set fm. Timestamp e \<le> Timestamp d) \<and>
                          m = PyFloat (py_round (Average d / 2 ^ 30) 2)))"
proof -
  obtain g x where g: "latest_gb fs = Inr g" and x: "num_of g = Inr x"
    using latest_gb_num by blast
  obtain m y where m: "latest_gb fm = Inr m" and y: "num_of m = Inr y"
    using latest_gb_num by blast
  let ?row = "[(''RDS Instance Name'', PyStr (DBInstanceIdentifier inst)),
          (''Instance State'', PyStr (DBInstanceStatus inst)),
          (''Allocated Space (GB)'', PyInt (AllocatedStorage inst)),
          (''Free Storage Space (GB)'', g),
          (''Free Storage Space (%)'',
             if 0 < AllocatedStorage inst
             then PyFloat (py_round (float_mul
                    (projr (py_truediv_by_int g (AllocatedStorage inst))) 100) 2)
             else PyInt 0),
          (''Freeable Memory (GB)'', m)]"
  have row: "instance_row w t inst = Inr ?row"
    by (rule instance_row_eq [OF assms g x m])
  have a: "map_of ?row ''Free Storage Space (GB)'' = Some g" by simp
  have b: "map_of ?row ''Freeable Memory (GB)'' = Some m" by simp
  from row a b latest_gb_spec [OF g] latest_gb_spec [OF m] show ?thesis by blast
qed

text \<open>Claim C3 on a series of three datapoints, the latest in the middle, and an empty one.\<close>

theorem latest_datapoint_in_gb_witness:
  "\<exists>row. instance_row
       (sample_world [] []
          (\<lambda>metric. if metric = ''FreeStorageSpace''
                     then [\<lparr>Timestamp = 10, Average = 1073741824\<rparr>,
                           \<lparr>Timestamp = 30, Average = 12884901888\<rparr>,
                           \<lparr>Timestamp = 20, Average = 5368709120\<rparr>]
                     else [])
          (Inr ''id-1''))
       1762179000
       \<lparr>DBInstanceIdentifier = ''db-1'', AllocatedStorage = 100, DBInstanceStatus = ''available''\<rparr>
     = Inr row
   \<and> map_of row ''Free Storage Space (GB)'' = Some (PyFloat 12)
   \<and> map_of row ''Freeable Memory (GB)'' = Some (PyInt 0)"
proof -
  let ?fs = "[\<lparr>Timestamp = 10, Average = 1073741824\<rparr>,
              \<lparr>Timestamp = 30, Average = 12884901888\<rparr>,
              \<lparr>Timestamp = 20, Average = 5368709120\<rparr>]"
  let ?w = "sample_world [] []
          (\<lambda>metric. if metric = ''FreeStorageSpace'' then ?fs else [])
          (Inr ''id-1'')"
  let ?inst = "\<lparr>DBInstanceIdentifier = ''db-1'', AllocatedStorage = 100,
                 DBInstanceStatus = ''available''\<rparr>"
  have fs: "get_metric_statistics ?w
              (stats_request 1762179000 ''FreeStorageSpace'' (DBInstanceIdentifier ?inst)) = Inr ?fs"
    by (simp add: sample_world_def stats_request_def)
  have fm: "get_metric_statistics ?w
              (stats_request 1762179000 ''FreeableMemory'' (DBInstanceIdentifier ?inst)) = Inr []"
    by (simp add: sample_world_def stats_request_def)
  have r: "py_round (12884901888 / 2 ^ 30) 2 = 12"
    by (simp add: py_round_def round_half_even_def Let_def)
  from latest_datapoint_in_gb [OF fs fm] obtain row g m where
    row: "instance_row ?w 1762179000 ?inst = Inr row"
    and g: "map_of row ''Free Storage Space (GB)'' = Some g"
    and m: "map_of row ''Freeable Memory (GB)'' = Some m"
    and gv: "\<exists>d \<in> set ?fs. (\<forall>e \<in> set ?fs. Timestamp e \<le> Timestamp d) \<and>
                          g = PyFloat (py_round (Average d / 2 ^ 30) 2)"
    and mv: "m = PyInt 0"
    by auto
  from gv have "g = PyFloat (py_round (12884901888 / 2 ^ 30) 2)" by auto
  with r have "g = PyFloat 12" by simp
  with row g m mv show ?thesis by blast
qed

text \<open>
  Claim C1 on an inventory of two instances, of 0 GB and of 200 GB, with 32201517302 free
  bytes: 29.99 GB, and 14.99 percent of 200 GB.
\<close>

theorem free_storage_percent_guard_witness:
  "\<exists>rows. get_rds_metrics_report
       (sample_world []
          [\<lparr>DBInstanceIdentifier = ''db-0'', AllocatedStorage = 0, DBInstanceStatus = ''creating''\<rparr>,
           \<lparr>DBInstanceIdentifier = ''db-1'', AllocatedStorage = 200, DBInstanceStatus = ''available''\<rparr>]
          (\<lambda>metric. [\<lparr>Timestamp = 1, Average = 32201517302\<rparr>]) (Inr ''id-1'')) = Inr rows
     \<and> map_of (rows ! 0) ''Free Storage Space (%)'' = Some (PyInt 0)
     \<and> map_of (rows ! 1) ''Free Storage Space (GB)'' = Some (PyFloat (2999 / 100))
     \<and> map_of (rows ! 1) ''Free Storage Space (%)'' = Some (PyFloat (1499 / 100))"
proof -
  let ?insts = "[\<lparr>DBInstanceIdentifier = ''db-0'', AllocatedStorage = 0, DBInstanceStatus = ''creating''\<rparr>,
           \<lparr>DBInstanceIdentifier = ''db-1'', AllocatedStorage = 200, DBInstanceStatus = ''available''\<rparr>]"
  let ?w = "sample_world [] ?insts (\<lambda>metric. [\<lparr>Timestamp = 1, Average = 32201517302\<rparr>])
              (Inr ''id-1'')"
  have gb: "latest_gb [\<lparr>Timestamp = 1, Average = 32201517302\<rparr>] = Inr (PyFloat (2999 / 100))"
    by (simp add: latest_gb_Cons py_round_def round_half_even_def Let_def)
  have q: "py_truediv_by_int (PyFloat (2999 / 100)) 200
             = Inr (5402518112993647 / 36028797018963968)"
    by (simp add: float_eval)
  have pc: "py_round (float_mul (5402518112993647 / 36028797018963968) 100) 2 = 1499 / 100"
    by (simp add: float_eval)
  have d: "describe_db_instances ?w = Inr ?insts" by (simp add: sample_world_def)
  obtain rows where r: "get_rds_metrics_report ?w = Inr rows"
    by (simp add: get_rds_metrics_report_def sample_world_def instance_row_def stats_request_def
        Let_def gb free_storage_percent_def q)
  have g: "map_of (rows ! 1) ''Free Storage Space (GB)'' = Some (PyFloat (2999 / 100))"
    using r by (auto simp add: get_rds_metrics_report_def sample_world_def instance_row_def
        stats_request_def Let_def gb free_storage_percent_def q)
  from free_storage_percent_guard [OF r d, of 0]
  have a: "map_of (rows ! 0) ''Free Storage Space (%)'' = Some (PyInt 0)" by auto
  have b: "map_of (rows ! 1) ''Free Storage Space (%)'' = Some (PyFloat (1499 / 100))"
  proof -
    from free_storage_percent_guard [OF r d, of 1] obtain gv qv where
      gv: "map_of (rows ! 1) ''Free Storage Space (GB)'' = Some gv" and
      qv: "py_truediv_by_int gv 200 = Inr qv" and
      pv: "map_of (rows ! 1) ''Free Storage Space (%)'' =
             Some (PyFloat (py_round (float_mul qv 100) 2))"
      by auto
    from gv g have "gv = PyFloat (2999 / 100)" by simp
    with qv q have "qv = 5402518112993647 / 36028797018963968" by simp
    with pv pc show ?thesis by simp
  qed
  from r a g b show ?thesis by blast
qed

text \<open>
  Claim C9. For an instance of positive allocated storage, the row is produced and its
  percentage is \<open>round(g / allocated * 100, 2)\<close>, each step as Python does it on doubles,
  where \<open>g\<close> is the GB value of the row: \<open>round(bytes / 2 ^ 30, 2)\<close> for the average
  \<open>bytes\<close> of the latest datapoint, and 0 without datapoints. Hence every row of an
  instance of the same allocated storage with the same GB value has the same percentage.
\<close>

theorem percent_from_rounded_gb:
  assumes "0 < AllocatedStorage inst"
    and "get_metric_statistics w
           (stats_request t ''FreeStorageSpace'' (DBInstanceIdentifier inst)) = Inr fs"
    and "get_metric_statistics w
           (stats_request t ''FreeableMemory'' (DBInstanceIdentifier inst)) = Inr fm"
  shows "\<exists>row g q. instance_row w t inst = Inr row
      \<and> map_of row ''Free Storage Space (GB)'' = Some g
      \<and> (fs = [] \<longrightarrow> g = PyInt 0)
      \<and> (\<forall>d ds. fs = d # ds \<longrightarrow>
            g = PyFloat (py_round (Average (max_by_from Timestamp d ds) / 2 ^ 30) 2))
      \<and> py_truediv_by_int g (AllocatedStorage inst) = Inr q
      \<and> map_of row ''Free Storage Space (%)'' = Some (PyFloat (py_round (float_mul q 100) 2))
      \<and> (\<forall>w' t' inst' row'.
            instance_row w' t' inst' = Inr row'
          \<and> AllocatedStorage inst' = AllocatedStorage inst
          \<and> map_of row' ''Free Storage Space (GB)'' = Some g
          \<longrightarrow> map_of row' ''Free Storage Space (%)'' = map_of row ''Free Storage Space (%)'')"
proof -
  let ?a = "AllocatedStorage inst"
  obtain g x where g: "latest_gb fs = Inr g" and x: "num_of g = Inr x"
    using latest_gb_num by blast
  obtain m y where m: "latest_gb fm = Inr m" and "num_of m = Inr y"
    using latest_gb_num by blast
  from assms(1) have nz: "?a \<noteq> 0" by simp
  from py_truediv_by_int_number [OF x nz] obtain q where
    q: "py_truediv_by_int g ?a = Inr q" by blast
  let ?pct = "PyFloat (py_round (float_mul q 100) 2)"
  let ?row = "[(''RDS Instance Name'', PyStr (DBInstanceIdentifier inst)),
          (''Instance State'', PyStr (DBInstanceStatus inst)),
          (''Allocated Space (GB)'', PyInt ?a),
          (''Free Storage Space (GB)'', g),
          (''Free Storage Space (%)'', ?pct),
          (''Freeable Memory (GB)'', m)]"
  have row: "instance_row w t inst = Inr ?row"
    using instance_row_eq [OF assms(2,3) g x m] assms(1) by (simp add: q)
  have a: "map_of ?row ''Free Storage Space (GB)'' = Some g" by simp
  have b: "map_of ?row ''Free Storage Space (%)'' = Some ?pct" by simp
  have c: "fs = [] \<longrightarrow> g = PyInt 0" using g by (auto simp: latest_gb_Nil)
  have d: "\<forall>d ds. fs = d # ds \<longrightarrow>
            g = PyFloat (py_round (Average (max_by_from Timestamp d ds) / 2 ^ 30) 2)"
    using g by (auto simp: latest_gb_Cons)
  have e: "map_of row' ''Free Storage Space (%)'' = map_of ?row ''Free Storage Space (%)''"
    if r': "instance_row w' t' inst' = Inr row'"
      and al: "AllocatedStorage inst' = ?a"
      and g': "map_of row' ''Free Storage Space (GB)'' = Some g"
    for w' t' inst' row'
  proof -
    from instance_row_shape [OF r'] obtain g'' x'' m'' where
      s: "row' = [(''RDS Instance Name'', PyStr (DBInstanceIdentifier inst')),
          (''Instance State'', PyStr (DBInstanceStatus inst')),
          (''Allocated Space (GB)'', PyInt (AllocatedStorage inst')),
          (''Free Storage Space (GB)'', g''),
          (''Free Storage Space (%)'',
             if 0 < AllocatedStorage inst'
             then PyFloat (py_round (float_mul
                    (projr (py_truediv_by_int g'' (AllocatedStorage inst'))) 100) 2)
             else PyInt 0),
          (''Freeable Memory (GB)'', m'')]"
      by blast
    from g' s have "g'' = g" by simp
    with s al assms(1) q show ?thesis by simp
  qed
  show ?thesis
  proof (intro exI conjI)
    show "instance_row w t inst = Inr ?row" by (rule row)
    show "map_of ?row ''Free Storage Space (GB)'' = Some g" by (rule a)
    show "fs = [] \<longrightarrow> g = PyInt 0" by (rule c)
    show "\<forall>d ds. fs = d # ds \<longrightarrow>
            g = PyFloat (py_round (Average (max_by_from Timestamp d ds) / 2 ^ 30) 2)" by (rule d)
    show "py_truediv_by_int g ?a = Inr q" by (rule q)
    show "map_of ?row ''Free Storage Space (%)'' = Some ?pct" by (rule b)
    show "\<forall>w' t' inst' row'.
            instance_row w' t' inst' = Inr row'
          \<and> AllocatedStorage inst' = ?a
          \<and> map_of row' ''Free Storage Space (GB)'' = Some g
          \<longrightarrow> map_of row' ''Free Storage Space (%)'' = map_of ?row ''Free Storage Space (%)''"
      using e by blast
  qed
qed

text \<open>
  Claim C9 on 32201517302 and 32201518302 free bytes of 200 GB allocated: both are reported
  as 29.99 GB and as 14.99 percent, the value of \<open>round(29.99 / 200 * 100, 2)\<close> on
  doubles, where the quotient is just below 0.14995; on exact numbers it would be 15.
\<close>

theorem percent_from_rounded_gb_witness:
  "\<exists>row row'.
     instance_row
       (sample_world [] [] (\<lambda>metric. [\<lparr>Timestamp = 1, Average = 32201517302\<rparr>])
          (Inr ''id-1''))
       1762179000
       \<lparr>DBInstanceIdentifier = ''db-1'', AllocatedStorage = 200, DBInstanceStatus = ''available''\<rparr>
       = Inr row
   \<and> instance_row
       (sample_world [] [] (\<lambda>metric. [\<lparr>Timestamp = 1, Average = 32201518302\<rparr>])
          (Inr ''id-1''))
       1762179000
       \<lparr>DBInstanceIdentifier = ''db-2'', AllocatedStorage = 200, DBInstanceStatus = ''available''\<rparr>
       = Inr row'
   \<and> map_of row ''Free Storage Space (GB)'' = Some (PyFloat (2999 / 100))
   \<and> map_of row' ''Free Storage Space (GB)'' = Some (PyFloat (2999 / 100))
   \<and> map_of row ''Free Storage Space (%)'' = Some (PyFloat (1499 / 100))
   \<and> map_of row' ''Free Storage Space (%)'' = Some (PyFloat (1499 / 100))
   \<and> py_round (2999 / 100 / 200 * 100) 2 = 15"
proof -
  let ?d = "\<lparr>Timestamp = 1, Average = 32201517302\<rparr>"
  let ?d' = "\<lparr>Timestamp = 1, Average = 32201518302\<rparr>"
  let ?w = "sample_world [] [] (\<lambda>metric. [?d]) (Inr ''id-1'')"
  let ?w' = "sample_world [] [] (\<lambda>metric. [?d']) (Inr ''id-1'')"
  let ?inst = "\<lparr>DBInstanceIdentifier = ''db-1'', AllocatedStorage = 200,
                 DBInstanceStatus = ''available''\<rparr>"
  let ?inst' = "\<lparr>DBInstanceIdentifier = ''db-2'', AllocatedStorage = 200,
                 DBInstanceStatus = ''available''\<rparr>"
  have a: "0 < AllocatedStorage ?inst" by simp
  have fs: "get_metric_statistics ?w
      (stats_request 1762179000 ''FreeStorageSpace'' (DBInstanceIdentifier ?inst)) = Inr [?d]"
    by (simp add: sample_world_def)
  have fm: "get_metric_statistics ?w
      (stats_request 1762179000 ''FreeableMemory'' (DBInstanceIdentifier ?inst)) = Inr [?d]"
    by (simp add: sample_world_def)
  have fs': "get_metric_statistics ?w'
      (stats_request 1762179000 ''FreeStorageSpace'' (DBInstanceIdentifier ?inst')) = Inr [?d']"
    by (simp add: sample_world_def)
  have fm': "get_metric_statistics ?w'
      (stats_request 1762179000 ''FreeableMemory'' (DBInstanceIdentifier ?inst')) = Inr [?d']"
    by (simp add: sample_world_def)
  have g: "py_round (Average (max_by_from Timestamp ?d []) / 2 ^ 30) 2 = 2999 / 100"
    by (simp add: py_round_def round_half_even_def Let_def)
  have l': "latest_gb [?d'] = Inr (PyFloat (2999 / 100))"
    by (simp add: latest_gb_Cons py_round_def round_half_even_def Let_def)
  have n: "num_of (PyFloat (2999 / 100)) = Inr (2999 / 100)" by simp
  have qv: "py_truediv_by_int (PyFloat (2999 / 100)) 200
             = Inr (5402518112993647 / 36028797018963968)"
    by (simp add: float_eval)
  have pc: "py_round (float_mul (5402518112993647 / 36028797018963968) 100) 2 = 1499 / 100"
    by (simp add: float_eval)
  have exact: "py_round (2999 / 100 / 200 * 100) 2 = 15"
    by (simp add: py_round_def round_half_even_def Let_def)
  from instance_row_shape [OF instance_row_eq [OF fs' fm' l' n l']]
  have r': "\<exists>row'. instance_row ?w' 1762179000 ?inst' = Inr row'
              \<and> map_of row' ''Free Storage Space (GB)'' = Some (PyFloat (2999 / 100))"
    using instance_row_eq [OF fs' fm' l' n l'] by simp
  then obtain row' where
    r1: "instance_row ?w' 1762179000 ?inst' = Inr row'" and
    r2: "map_of row' ''Free Storage Space (GB)'' = Some (PyFloat (2999 / 100))" by blast
  from percent_from_rounded_gb [OF a fs fm] obtain row gv q where
    row: "instance_row ?w 1762179000 ?inst = Inr row"
    and gv: "map_of row ''Free Storage Space (GB)'' = Some gv"
    and gd: "\<forall>d ds. [?d] = d # ds \<longrightarrow>
            gv = PyFloat (py_round (Average (max_by_from Timestamp d ds) / 2 ^ 30) 2)"
    and q: "py_truediv_by_int gv (AllocatedStorage ?inst) = Inr q"
    and pct: "map_of row ''Free Storage Space (%)'' = Some (PyFloat (py_round (float_mul q 100) 2))"
    and same: "\<forall>w' t' inst' row'.
            instance_row w' t' inst' = Inr row'
          \<and> AllocatedStorage inst' = AllocatedStorage ?inst
          \<and> map_of row' ''Free Storage Space (GB)'' = Some gv
          \<longrightarrow> map_of row' ''Free Storage Space (%)'' = map_of row ''Free Storage Space (%)''"
    by (elim exE conjE) (rule that)
  from gd have "gv = PyFloat (py_round (Average (max_by_from Timestamp ?d []) / 2 ^ 30) 2)"
    by blast
  with g have gval: "gv = PyFloat (2999 / 100)" by simp
  from q gval qv have "q = 5402518112993647 / 36028797018963968" by simp
  with pct pc have pv: "map_of row ''Free Storage Space (%)'' = Some (PyFloat (1499 / 100))"
    by simp
  from same [rule_format, of ?w' 1762179000 ?inst' row'] r1 r2 gval
  have "map_of row' ''Free Storage Space (%)'' = map_of row ''Free Storage Space (%)''"
    by simp
  with pv have pv': "map_of row' ''Free Storage Space (%)'' = Some (PyFloat (1499 / 100))"
    by simp
  from row r1 gv gval r2 pv pv' exact show ?thesis by blast
qed

subsection \<open>The renderer\<close>

lemma map_result_total:
  "(\<And>x. x \<in> set xs \<Longrightarrow> f x = Inr (h x)) \<Longrightarrow> map_result f xs = Inr (map h xs)"
  by (induction xs) simp_all

lemma format_2f_number:
  "num_of v = Inr x \<Longrightarrow> format_2f v = Inr (PyStr (fixed2 x))"
  by (cases v) simp_all

lemma apply_column_format:
  assumes "index_of col (df_columns df) = Some i"
    and "\<And>row. row \<in> set (df_rows df) \<Longrightarrow> i < length row \<and> \<not> isl (num_of (row ! i))"
  shows "apply_column format_2f col df =
     Inr (df\<lparr>df_rows := map (\<lambda>row. row[i := PyStr (fixed2 (projr (num_of (row ! i))))])
                            (df_rows df)\<rparr>)"
proof -
  have "map_result
          (\<lambda>row. if i < length row
                  then and_then (format_2f (row ! i)) (\<lambda>v. Inr (row[i := v]))
                  else Inr row)
          (df_rows df) =
        Inr (map (\<lambda>row. row[i := PyStr (fixed2 (projr (num_of (row ! i))))]) (df_rows df))"
  proof (rule map_result_total)
    fix row assume "row \<in> set (df_rows df)"
    from assms(2) [OF this] have i: "i < length row" and n: "\<not> isl (num_of (row ! i))"
      by simp_all
    from n obtain x where x: "num_of (row ! i) = Inr x" by (cases "num_of (row ! i)") auto
    show "(if i < length row
           then and_then (format_2f (row ! i)) (\<lambda>v. Inr (row[i := v]))
           else Inr row) = Inr (row[i := PyStr (fixed2 (projr (num_of (row ! i))))])"
      using i x by (simp add: format_2f_number)
  qed
  with assms(1) show ?thesis by (simp add: apply_column_def)
qed

text \<open>The cells of a row of the report: two strings and four numbers.\<close>

lemma instance_row_cells:
  assumes "instance_row w t inst = Inr row"
  shows "map fst row =
           [''RDS Instance Name'', ''Instance State'', ''Allocated Space (GB)'',
            ''Free Storage Space (GB)'', ''Free Storage Space (%)'', ''Freeable Memory (GB)'']"
    and "length (map snd row) = 6"
    and "\<not> isl (num_of (map snd row ! 2))" and "\<not> isl (num_of (map snd row ! 3))"
    and "\<not> isl (num_of (map snd row ! 4))" and "\<not> isl (num_of (map snd row ! 5))"
    and "map_of row ''Free Storage Space (%)'' = Some (map snd row ! 4)"
    and "py_round (projr (num_of (map snd row ! 4))) 2 = projr (num_of (map snd row ! 4))"
proof -
  from instance_row_shape [OF assms] obtain g x m where
    g: "num_of g = Inr x" and m: "\<exists>dps. latest_gb dps = Inr m" and
    row: "row = [(''RDS Instance Name'', PyStr (DBInstanceIdentifier inst)),
          (''Instance State'', PyStr (DBInstanceStatus inst)),
          (''Allocated Space (GB)'', PyInt (AllocatedStorage inst)),
          (''Free Storage Space (GB)'', g),
          (''Free Storage Space (%)'',
             if 0 < AllocatedStorage inst
             then PyFloat (py_round (float_mul
                    (projr (py_truediv_by_int g (AllocatedStorage inst))) 100) 2)
             else PyInt 0),
          (''Freeable Memory (GB)'', m)]"
    by blast
  from m obtain dps where "latest_gb dps = Inr m" by blast
  with latest_gb_num [of dps] obtain y where y: "num_of m = Inr y" by auto
  show "map fst row =
           [''RDS Instance Name'', ''Instance State'', ''Allocated Space (GB)'',
            ''Free Storage Space (GB)'', ''Free Storage Space (%)'', ''Freeable Memory (GB)'']"
    by (simp add: row)
  show "length (map snd row) = 6" by (simp add: row)
  show "\<not> isl (num_of (map snd row ! 2))" by (simp add: row)
  show "\<not> isl (num_of (map snd row ! 3))" by (simp add: row g)
  show "\<not> isl (num_of (map snd row ! 4))" by (simp add: row)
  show "\<not> isl (num_of (map snd row ! 5))" by (simp add: row y)
  show "map_of row ''Free Storage Space (%)'' = Some (map snd row ! 4)" by (simp add: row)
  have "py_round 0 2 = 0" using py_round_of_int [of 0] by simp
  then show "py_round (projr (num_of (map snd row ! 4))) 2 = projr (num_of (map snd row ! 4))"
    by (simp add: row py_round_idem)
qed

lemma list_of_length_6:
  "length xs = 6 \<Longrightarrow> \<exists>a b c d e f. xs = [a, b, c, d, e, f]"
  by (auto simp: numeral_eq_Suc length_Suc_conv)

lemma style_row_formatted:
  assumes "length cells = 6" and "cells ! 4 = PyStr (fixed2 p)"
  shows "style_row
           [''RDS Instance Name'', ''Instance State'', ''Allocated Space (GB)'',
            ''Free Storage Space (GB)'', ''Free Storage Space (%)'', ''Freeable Memory (GB)'']
           cells =
         Inr (zip cells
           ['''', '''', '''', '''',
            if py_round p 2 < 15 then ''background-color: red''
            else if py_round p 2 < 20 then ''background-color: orange'' else '''',
            ''''])"
proof -
  from list_of_length_6 [OF assms(1)] obtain a b c d e f where
    cells: "cells = [a, b, c, d, e, f]" by blast
  with assms(2) have e: "e = PyStr (fixed2 p)" by simp
  show ?thesis
    by (simp add: cells e style_row_def highlight_storage_percent_def float_of_fixed2)
qed

lemma format_report_frame:
  assumes cols: "df_columns df =
           [''RDS Instance Name'', ''Instance State'', ''Allocated Space (GB)'',
            ''Free Storage Space (GB)'', ''Free Storage Space (%)'', ''Freeable Memory (GB)'']"
    and good: "\<And>cells. cells \<in> set (df_rows df) \<Longrightarrow>
           length cells = 6 \<and> \<not> isl (num_of (cells ! 2)) \<and> \<not> isl (num_of (cells ! 3))
           \<and> \<not> isl (num_of (cells ! 4)) \<and> \<not> isl (num_of (cells ! 5))"
  shows "format_columns numeric_columns df =
     Inr (df\<lparr>df_rows :=
            map (\<lambda>cells. cells[2 := PyStr (fixed2 (projr (num_of (cells ! 2)))),
                               3 := PyStr (fixed2 (projr (num_of (cells ! 3)))),
                               4 := PyStr (fixed2 (projr (num_of (cells ! 4)))),
                               5 := PyStr (fixed2 (projr (num_of (cells ! 5))))])
                (df_rows df)\<rparr>)"
proof -
  let ?t = "\<lambda>v. PyStr (fixed2 (projr (num_of v)))"
  let ?h2 = "\<lambda>cells :: py_value list. cells[2 := ?t (cells ! 2)]"
  let ?h3 = "\<lambda>cells :: py_value list. cells[3 := ?t (cells ! 3)]"
  let ?h4 = "\<lambda>cells :: py_value list. cells[4 := ?t (cells ! 4)]"
  let ?h5 = "\<lambda>cells :: py_value list. cells[5 := ?t (cells ! 5)]"
  let ?df2 = "df\<lparr>df_rows := map ?h2 (df_rows df)\<rparr>"
  let ?df3 = "?df2\<lparr>df_rows := map ?h3 (df_rows ?df2)\<rparr>"
  let ?df4 = "?df3\<lparr>df_rows := map ?h4 (df_rows ?df3)\<rparr>"
  let ?df5 = "?df4\<lparr>df_rows := map ?h5 (df_rows ?df4)\<rparr>"
  have i2: "index_of ''Allocated Space (GB)'' (df_columns df) = Some 2"
    by (simp add: cols)
  have i3: "index_of ''Free Storage Space (GB)'' (df_columns ?df2) = Some 3"
    by (simp add: cols)
  have i4: "index_of ''Free Storage Space (%)'' (df_columns ?df3) = Some 4"
    by (simp add: cols)
  have i5: "index_of ''Freeable Memory (GB)'' (df_columns ?df4) = Some 5"
    by (simp add: cols)
  have s2: "apply_column format_2f ''Allocated Space (GB)'' df = Inr ?df2"
    by (rule apply_column_format [OF i2]) (use good in simp)
  have s3: "apply_column format_2f ''Free Storage Space (GB)'' ?df2 = Inr ?df3"
    by (rule apply_column_format [OF i3]) (use good in auto)
  have s4: "apply_column format_2f ''Free Storage Space (%)'' ?df3 = Inr ?df4"
    by (rule apply_column_format [OF i4]) (use good in auto)
  have s5: "apply_column format_2f ''Freeable Memory (GB)'' ?df4 = Inr ?df5"
    by (rule apply_column_format [OF i5]) (use good in auto)
  have "format_columns numeric_columns df = Inr ?df5"
    by (simp only: numeric_columns_def format_columns.simps s2 s3 s4 s5 and_then_Inr)
  moreover have "?df5 = df\<lparr>df_rows :=
            map (\<lambda>cells. cells[2 := ?t (cells ! 2), 3 := ?t (cells ! 3),
                               4 := ?t (cells ! 4), 5 := ?t (cells ! 5)])
                (df_rows df)\<rparr>"
    using good by (simp add: comp_def)
  ultimately show ?thesis by simp
qed

lemma map_result_map: "map_result f (map g xs) = map_result (\<lambda>x. f (g x)) xs"
  by (induction xs) simp_all

lemma report_row_instance:
  assumes "get_rds_metrics_report w = Inr rows" and "row \<in> set rows"
  shows "\<exists>inst. instance_row w (utcnow w) inst = Inr row"
proof -
  from assms(1) obtain instances where d: "describe_db_instances w = Inr instances"
    by (auto simp: get_rds_metrics_report_def and_then_eq_Inr)
  from assms(2) obtain i where i: "i < length rows" and r: "rows ! i = row"
    by (auto simp: in_set_conv_nth)
  from report_rows [OF assms(1) d] i r show ?thesis by auto
qed

lemma report_frame:
  assumes "get_rds_metrics_report w = Inr rows" and "rows \<noteq> []"
  shows "df_columns (DataFrame rows) =
           [''RDS Instance Name'', ''Instance State'', ''Allocated Space (GB)'',
            ''Free Storage Space (GB)'', ''Free Storage Space (%)'', ''Freeable Memory (GB)'']"
    and "df_rows (DataFrame rows) = map (map snd) rows"
proof -
  from assms(2) obtain r rs where rows: "rows = r # rs" by (cases rows) auto
  then have "r \<in> set rows" by simp
  from report_row_instance [OF assms(1) this] obtain inst where
    "instance_row w (utcnow w) inst = Inr r" by blast
  from instance_row_cells(1) [OF this]
  show "df_columns (DataFrame rows) =
           [''RDS Instance Name'', ''Instance State'', ''Allocated Space (GB)'',
            ''Free Storage Space (GB)'', ''Free Storage Space (%)'', ''Freeable Memory (GB)'']"
    by (simp add: DataFrame_def rows)
  show "df_rows (DataFrame rows) = map (map snd) rows" by (simp add: DataFrame_def)
qed

lemma report_styled:
  assumes rep: "get_rds_metrics_report w = Inr rows" and ne: "rows \<noteq> []"
  shows "\<exists>formatted.
      format_columns numeric_columns (DataFrame rows) = Inr formatted
    \<and> df_columns formatted = df_columns (DataFrame rows)
    \<and> style_apply formatted =
        Inr (map (\<lambda>row.
               zip ((map snd row)
                      [2 := PyStr (fixed2 (projr (num_of (map snd row ! 2)))),
                       3 := PyStr (fixed2 (projr (num_of (map snd row ! 3)))),
                       4 := PyStr (fixed2 (projr (num_of (map snd row ! 4)))),
                       5 := PyStr (fixed2 (projr (num_of (map snd row ! 5))))])
                   ['''', '''', '''', '''',
                    if projr (num_of (map snd row ! 4)) < 15 then ''background-color: red''
                    else if projr (num_of (map snd row ! 4)) < 20
                         then ''background-color: orange'' else '''',
                    '''']) rows)"
proof -
  let ?cols = "[''RDS Instance Name'', ''Instance State'', ''Allocated Space (GB)'',
            ''Free Storage Space (GB)'', ''Free Storage Space (%)'', ''Freeable Memory (GB)'']"
  let ?fmt = "\<lambda>cells. cells[2 := PyStr (fixed2 (projr (num_of (cells ! 2)))),
                               3 := PyStr (fixed2 (projr (num_of (cells ! 3)))),
                               4 := PyStr (fixed2 (projr (num_of (cells ! 4)))),
                               5 := PyStr (fixed2 (projr (num_of (cells ! 5))))]"
  let ?df = "DataFrame rows"
  let ?formatted = "?df\<lparr>df_rows := map ?fmt (df_rows ?df)\<rparr>"
  note frame = report_frame [OF rep ne]
  have good: "length cells = 6 \<and> \<not> isl (num_of (cells ! 2)) \<and> \<not> isl (num_of (cells ! 3))
           \<and> \<not> isl (num_of (cells ! 4)) \<and> \<not> isl (num_of (cells ! 5))"
    if "cells \<in> set (df_rows ?df)" for cells
  proof -
    from that obtain row where row: "row \<in> set rows" and c: "cells = map snd row"
      by (auto simp: frame(2))
    from report_row_instance [OF rep row] obtain inst where
      "instance_row w (utcnow w) inst = Inr row" by blast
    from instance_row_cells(2-6) [OF this] show ?thesis by (simp add: c)
  qed
  have f: "format_columns numeric_columns ?df = Inr ?formatted"
    by (rule format_report_frame [OF frame(1)]) (use good in blast)
  have s: "style_row ?cols (?fmt (map snd row)) =
        Inr (zip (?fmt (map snd row))
                 ['''', '''', '''', '''',
                  if projr (num_of (map snd row ! 4)) < 15 then ''background-color: red''
                  else if projr (num_of (map snd row ! 4)) < 20
                       then ''background-color: orange'' else '''',
                  ''''])"
    if "row \<in> set rows" for row
  proof -
    from report_row_instance [OF rep that] obtain inst where
      r: "instance_row w (utcnow w) inst = Inr row" by blast
    have len: "length (?fmt (map snd row)) = 6"
      using instance_row_cells(2) [OF r] by simp
    have four: "?fmt (map snd row) ! 4 = PyStr (fixed2 (projr (num_of (map snd row ! 4))))"
      using instance_row_cells(2) [OF r] by simp
    from style_row_formatted [OF len four] instance_row_cells(8) [OF r]
    show ?thesis by simp
  qed
  have "style_apply ?formatted =
          map_result (\<lambda>row. style_row ?cols (?fmt (map snd row))) rows"
    by (simp add: style_apply_def frame map_result_map)
  also have "\<dots> = Inr (map (\<lambda>row. zip (?fmt (map snd row))
                 ['''', '''', '''', '''',
                  if projr (num_of (map snd row ! 4)) < 15 then ''background-color: red''
                  else if projr (num_of (map snd row ! 4)) < 20
                       then ''background-color: orange'' else '''',
                  '''']) rows)"
    by (rule map_result_total) (rule s)
  finally have "style_apply ?formatted = Inr (map (\<lambda>row. zip (?fmt (map snd row))
                 ['''', '''', '''', '''',
                  if projr (num_of (map snd row ! 4)) < 15 then ''background-color: red''
                  else if projr (num_of (map snd row ! 4)) < 20
                       then ''background-color: orange'' else '''',
                  '''']) rows)" .
  with f show ?thesis by (intro exI [of _ ?formatted]) simp
qed

text \<open>
  Claim C2. For the rows of a non-empty report, formatting and styling succeed, there is
  one styled row per record, and in each the cell of \<open>Free Storage Space (%)\<close> (the
  fifth, holding the percentage of the record in two decimals) is styled by the
  percentage \<open>p\<close> of the record: red when \<open>p < 15\<close>, orange when \<open>15 \<le> p < 20\<close>,
  nothing when \<open>20 \<le> p\<close>; the other five cells carry no style.
\<close>

theorem highlight_thresholds:
  assumes "get_rds_metrics_report w = Inr rows" and "rows \<noteq> []"
  shows "\<exists>formatted styled.
      format_columns numeric_columns (DataFrame rows) = Inr formatted
    \<and> style_apply formatted = Inr styled
    \<and> length styled = length rows
    \<and> (\<forall>i < length rows. \<exists>v p.
          map_of (rows ! i) ''Free Storage Space (%)'' = Some v \<and> num_of v = Inr p
        \<and> length (styled ! i) = 6
        \<and> styled ! i ! 4 =
            (PyStr (fixed2 p),
             if p < 15 then ''background-color: red''
             else if p < 20 then ''background-color: orange'' else '''')
        \<and> (\<forall>j < 6. j \<noteq> 4 \<longrightarrow> snd (styled ! i ! j) = ''''))"
proof -
  let ?sty = "\<lambda>row. zip ((map snd row)
                      [2 := PyStr (fixed2 (projr (num_of (map snd row ! 2)))),
                       3 := PyStr (fixed2 (projr (num_of (map snd row ! 3)))),
                       4 := PyStr (fixed2 (projr (num_of (map snd row ! 4)))),
                       5 := PyStr (fixed2 (projr (num_of (map snd row ! 5))))])
                   ['''', '''', '''', '''',
                    if projr (num_of (map snd row ! 4)) < 15 then ''background-color: red''
                    else if projr (num_of (map snd row ! 4)) < 20
                         then ''background-color: orange'' else '''',
                    '''']"
  from report_styled [OF assms] obtain formatted where
    f: "format_columns numeric_columns (DataFrame rows) = Inr formatted" and
    s: "style_apply formatted = Inr (map ?sty rows)" by blast
  have each: "\<exists>v p.
          map_of (rows ! i) ''Free Storage Space (%)'' = Some v \<and> num_of v = Inr p
        \<and> length (map ?sty rows ! i) = 6
        \<and> map ?sty rows ! i ! 4 =
            (PyStr (fixed2 p),
             if p < 15 then ''background-color: red''
             else if p < 20 then ''background-color: orange'' else '''')
        \<and> (\<forall>j < 6. j \<noteq> 4 \<longrightarrow> snd (map ?sty rows ! i ! j) = '''')"
    if i: "i < length rows" for i
  proof -
    let ?row = "rows ! i"
    let ?v = "map snd ?row ! 4"
    let ?p = "projr (num_of ?v)"
    from i have "?row \<in> set rows" by simp
    from report_row_instance [OF assms(1) this] obtain inst where
      r: "instance_row w (utcnow w) inst = Inr ?row" by blast
    note c = instance_row_cells [OF r]
    have v: "map_of ?row ''Free Storage Space (%)'' = Some ?v" by (rule c(7))
    have p: "num_of ?v = Inr ?p" using c(5) by (cases "num_of ?v") simp_all
    obtain a b c' d e f' where cells: "map snd ?row = [a, b, c', d, e, f']"
      using list_of_length_6 [OF c(2)] by auto
    have len: "length (?sty ?row) = 6" by (simp add: cells)
    have four: "?sty ?row ! 4 =
            (PyStr (fixed2 ?p),
             if ?p < 15 then ''background-color: red''
             else if ?p < 20 then ''background-color: orange'' else '''')"
      by (simp add: cells)
    have rest: "\<forall>j < 6. j \<noteq> 4 \<longrightarrow> snd (?sty ?row ! j) = ''''"
    proof (intro allI impI)
      fix j :: nat assume "j < 6" and "j \<noteq> 4"
      then consider "j = 0" | "j = 1" | "j = 2" | "j = 3" | "j = 5" by linarith
      then show "snd (?sty ?row ! j) = ''''"
        by cases (simp_all add: cells)
    qed
    have m: "map ?sty rows ! i = ?sty ?row" using i by (rule nth_map)
    show ?thesis unfolding m using v p len four rest by blast
  qed
  from f s each show ?thesis
    by (intro exI [of _ formatted] exI [of _ "map ?sty rows"]) simp
qed

text \<open>
  Claim C2 at the three boundary values: 14.99 is red, 15.00 is orange, 20.00 has no
  highlight.
\<close>

theorem highlight_thresholds_witness:
  "\<exists>rows formatted styled.
      get_rds_metrics_report
        (sample_world []
          [\<lparr>DBInstanceIdentifier = ''db-1'', AllocatedStorage = 6000, DBInstanceStatus = ''available''\<rparr>,
           \<lparr>DBInstanceIdentifier = ''db-2'', AllocatedStorage = 5996, DBInstanceStatus = ''available''\<rparr>,
           \<lparr>DBInstanceIdentifier = ''db-3'', AllocatedStorage = 4497, DBInstanceStatus = ''available''\<rparr>]
          (\<lambda>metric. [\<lparr>Timestamp = 1, Average = 8994 / 10 * 1073741824\<rparr>]) (Inr ''id-1''))
        = Inr rows
    \<and> format_columns numeric_columns (DataFrame rows) = Inr formatted
    \<and> style_apply formatted = Inr styled
    \<and> styled ! 0 ! 4 = (PyStr ''14.99'', ''background-color: red'')
    \<and> styled ! 1 ! 4 = (PyStr ''15.00'', ''background-color: orange'')
    \<and> styled ! 2 ! 4 = (PyStr ''20.00'', '''')"
proof -
  let ?w = "sample_world []
          [\<lparr>DBInstanceIdentifier = ''db-1'', AllocatedStorage = 6000, DBInstanceStatus = ''available''\<rparr>,
           \<lparr>DBInstanceIdentifier = ''db-2'', AllocatedStorage = 5996, DBInstanceStatus = ''available''\<rparr>,
           \<lparr>DBInstanceIdentifier = ''db-3'', AllocatedStorage = 4497, DBInstanceStatus = ''available''\<rparr>]
          (\<lambda>metric. [\<lparr>Timestamp = 1, Average = 8994 / 10 * 1073741824\<rparr>]) (Inr ''id-1'')"
  let ?row = "\<lambda>n a p. [(''RDS Instance Name'', PyStr n),
          (''Instance State'', PyStr ''available''),
          (''Allocated Space (GB)'', PyInt a),
          (''Free Storage Space (GB)'', PyFloat (4497 / 5)),
          (''Free Storage Space (%)'', PyFloat p),
          (''Freeable Memory (GB)'', PyFloat (4497 / 5))]"
  let ?rows = "[?row ''db-1'' 6000 (1499 / 100), ?row ''db-2'' 5996 15, ?row ''db-3'' 4497 20]"
  have g: "py_round (4497 / 5) 2 = 4497 / 5"
    by (simp add: py_round_def round_half_even_def Let_def)
  have q1: "free_storage_percent (PyFloat (4497 / 5)) 6000 = Inr (PyFloat (1499 / 100))"
    by (rule free_storage_percent_value) (simp_all add: float_eval)
  have q2: "free_storage_percent (PyFloat (4497 / 5)) 5996 = Inr (PyFloat 15)"
    by (rule free_storage_percent_value) (simp_all add: float_eval)
  have q3: "free_storage_percent (PyFloat (4497 / 5)) 4497 = Inr (PyFloat 20)"
    by (rule free_storage_percent_value) (simp_all add: float_eval)
  have r: "get_rds_metrics_report ?w = Inr ?rows"
    by (simp add: get_rds_metrics_report_def sample_world_def instance_row_def stats_request_def
        Let_def latest_gb_Cons g q1 q2 q3)
  have ne: "?rows \<noteq> []" by simp
  have t1: "fixed2 (1499 / 100) = ''14.99''" by code_simp
  have t2: "fixed2 15 = ''15.00''" by code_simp
  have t3: "fixed2 20 = ''20.00''" by code_simp
  from highlight_thresholds [OF r ne] obtain formatted styled where
    f: "format_columns numeric_columns (DataFrame ?rows) = Inr formatted" and
    s: "style_apply formatted = Inr styled" and
    each: "\<forall>i < length ?rows. \<exists>v p.
          map_of (?rows ! i) ''Free Storage Space (%)'' = Some v \<and> num_of v = Inr p
        \<and> length (styled ! i) = 6
        \<and> styled ! i ! 4 =
            (PyStr (fixed2 p),
             if p < 15 then ''background-color: red''
             else if p < 20 then ''background-color: orange'' else '''')
        \<and> (\<forall>j < 6. j \<noteq> 4 \<longrightarrow> snd (styled ! i ! j) = '''')"
    by blast
  have a: "styled ! 0 ! 4 = (PyStr ''14.99'', ''background-color: red'')"
  proof -
    from each [rule_format, of 0] obtain v p where
      v: "map_of (?rows ! 0) ''Free Storage Space (%)'' = Some v" and p: "num_of v = Inr p" and
      st: "styled ! 0 ! 4 =
            (PyStr (fixed2 p),
             if p < 15 then ''background-color: red''
             else if p < 20 then ''background-color: orange'' else '''')"
      by auto
    from v have "v = PyFloat (1499 / 100)" by simp
    with p have "p = 1499 / 100" by simp
    with st t1 show ?thesis by simp
  qed
  have b: "styled ! 1 ! 4 = (PyStr ''15.00'', ''background-color: orange'')"
  proof -
    from each [rule_format, of 1] obtain v p where
      v: "map_of (?rows ! 1) ''Free Storage Space (%)'' = Some v" and p: "num_of v = Inr p" and
      st: "styled ! 1 ! 4 =
            (PyStr (fixed2 p),
             if p < 15 then ''background-color: red''
             else if p < 20 then ''background-color: orange'' else '''')"
      by auto
    from v have "v = PyFloat 15" by simp
    with p have "p = 15" by simp
    with st t2 show ?thesis by simp
  qed
  have c: "styled ! 2 ! 4 = (PyStr ''20.00'', '''')"
  proof -
    from each [rule_format, of 2] obtain v p where
      v: "map_of (?rows ! 2) ''Free Storage Space (%)'' = Some v" and p: "num_of v = Inr p" and
      st: "styled ! 2 ! 4 =
            (PyStr (fixed2 p),
             if p < 15 then ''background-color: red''
             else if p < 20 then ''background-color: orange'' else '''')"
      by auto
    from v have "v = PyFloat 20" by simp
    with p have "p = 20" by simp
    with st t3 show ?thesis by simp
  qed
  from r f s a b c show ?thesis by blast
qed

subsection \<open>The dispatcher and the entry point\<close>

lemma compose_request_shape:
  assumes "compose_request w df csv_data recipients = Inr request"
  shows "Source request = ''admin01@readywire.com''"
    and "Destinations request = recipients"
    and "\<exists>html. payload (RawMessage request) =
           [MIMEText html ''html'',
            MIMEApplication csv_data
              (''rds_metrics_report_'' @ now_strftime w ''%Y%m%d_%H%M%S'' @ ''.csv'')]"
  using assms by (auto simp: compose_request_def and_then_eq_Inr Let_def)

lemma send_report_email_cases:
  "(\<exists>e. compose_request w df csv_data recipients = Inl e \<and>
        send_report_email w df csv_data recipients = (False, w))
   \<or> (\<exists>request. compose_request w df csv_data recipients = Inr request \<and>
        send_report_email w df csv_data recipients =
          (\<not> isl (send_raw_email w request), w\<lparr>ses_calls := ses_calls w @ [request]\<rparr>))"
  by (cases "compose_request w df csv_data recipients")
     (auto simp: send_report_email_def Let_def split: sum.splits)

lemma handler_dispatch:
  assumes "get_rds_metrics_report w = Inr rows" and "rows \<noteq> []"
  shows "lambda_handler w event =
     (\<lparr> statusCode = 200,
        body = ''RDS metrics report generated and ''
               @ (if fst (send_report_email w (DataFrame rows) (to_csv (DataFrame rows))
                            (resolve_recipients w event))
                  then ''email sent successfully'' else ''failed to send email'') @ ''.'' \<rparr>,
      snd (send_report_email w (DataFrame rows) (to_csv (DataFrame rows))
             (resolve_recipients w event)))"
  using assms by (simp add: lambda_handler_def Let_def split_beta)

lemma handler_calls:
  "ses_calls (snd (lambda_handler w event)) = ses_calls w
   \<or> (\<exists>rows request.
        get_rds_metrics_report w = Inr rows \<and> rows \<noteq> [] \<and>
        compose_request w (DataFrame rows) (to_csv (DataFrame rows))
          (resolve_recipients w event) = Inr request \<and>
        ses_calls (snd (lambda_handler w event)) = ses_calls w @ [request])"
proof (cases "get_rds_metrics_report w")
  case (Inl e)
  then show ?thesis by (simp add: lambda_handler_def Let_def)
next
  case (Inr rows)
  show ?thesis
  proof (cases "rows = []")
    case True
    with Inr show ?thesis by (simp add: lambda_handler_def Let_def)
  next
    case False
    from send_report_email_cases
      [of w "DataFrame rows" "to_csv (DataFrame rows)" "resolve_recipients w event"]
    show ?thesis
      using Inr False by (auto simp: handler_dispatch [OF Inr False])
  qed
qed

lemma resolve_recipients_eq:
  "resolve_recipients w event =
     (case event of
        Some ev \<Rightarrow>
          (case map_of ev ''recipients'' of
             Some r \<Rightarrow> r
           | None \<Rightarrow> PyList (map PyStr (py_split
                       (case map_of (environ w) ''EMAIL_RECIPIENTS'' of
                          Some v \<Rightarrow> v | None \<Rightarrow> ''saasadmin@readywire.com'') (CHR '',''))))
      | None \<Rightarrow> PyList (map PyStr (py_split
                       (case map_of (environ w) ''EMAIL_RECIPIENTS'' of
                          Some v \<Rightarrow> v | None \<Rightarrow> ''saasadmin@readywire.com'') (CHR '',''))))"
proof (cases event)
  case None
  then show ?thesis by (simp add: resolve_recipients_def Let_def)
next
  case (Some ev)
  have key: "''recipients'' \<in> fst ` set ev \<longleftrightarrow> map_of ev ''recipients'' \<noteq> None"
    by (simp add: map_of_eq_None_iff)
  show ?thesis
  proof (cases "map_of ev ''recipients''")
    case None
    with Some key show ?thesis by (simp add: resolve_recipients_def Let_def)
  next
    case (Some r)
    then have "ev \<noteq> []" by auto
    with Some \<open>event = Some ev\<close> key show ?thesis
      by (simp add: resolve_recipients_def Let_def)
  qed
qed

lemma compose_request_report:
  assumes rep: "get_rds_metrics_report w = Inr rows" and ne: "rows \<noteq> []"
    and client: "boto3_client w ''ses'' = Inr u"
    and join: "py_join '', '' recipients = Inr to_header"
    and html: "\<And>cols styled. \<not> isl (styler_to_html w cols styled)"
  shows "\<exists>request. compose_request w (DataFrame rows) csv_data recipients = Inr request"
proof -
  from report_styled [OF rep ne] obtain formatted styled where
    f: "format_columns numeric_columns (DataFrame rows) = Inr formatted" and
    s: "style_apply formatted = Inr styled" by blast
  from html [of "df_columns formatted" styled] obtain h where
    h: "styler_to_html w (df_columns formatted) styled = Inr h"
    by (cases "styler_to_html w (df_columns formatted) styled") auto
  show ?thesis
    by (simp add: compose_request_def client join f s h Let_def)
qed

lemma sample_world_fields:
  "boto3_client (sample_world env instances series ses) service = Inr ()"
  "styler_to_html (sample_world env instances series ses) cols styled = Inr ''<table></table>''"
  "send_raw_email (sample_world env instances series ses) request = ses"
  "environ (sample_world env instances series ses) = env"
  "ses_calls (sample_world env instances series ses) = []"
  "describe_db_instances (sample_world env instances series ses) = Inr instances"
  by (simp_all add: sample_world_def)

lemma sample_report_db1:
  "get_rds_metrics_report
     (sample_world env
        [\<lparr>DBInstanceIdentifier = ''db-1'', AllocatedStorage = 100, DBInstanceStatus = ''available''\<rparr>]
        (\<lambda>metric. [\<lparr>Timestamp = 1, Average = 12884901888\<rparr>]) ses) =
   Inr [[(''RDS Instance Name'', PyStr ''db-1''),
         (''Instance State'', PyStr ''available''),
         (''Allocated Space (GB)'', PyInt 100),
         (''Free Storage Space (GB)'', PyFloat 12),
         (''Free Storage Space (%)'', PyFloat 12),
         (''Freeable Memory (GB)'', PyFloat 12)]]"
proof -
  have g: "py_round 12 2 = 12" using py_round_of_int [of 12] by simp
  have p: "free_storage_percent (PyFloat 12) 100 = Inr (PyFloat 12)"
    by (rule free_storage_percent_value) (simp_all add: float_eval)
  show ?thesis
    by (simp add: sample_report_one latest_gb_Cons g p)
qed

text \<open>
  Claim C4. When the collector returns the empty list, the handler answers 200 with the
  message that no instances were found, and the world is unchanged: no request has been
  handed to the mail service.
\<close>

theorem empty_inventory_short_circuit:
  assumes "get_rds_metrics_report w = Inr []"
  shows "lambda_handler w event =
           (\<lparr> statusCode = 200, body = ''No RDS instances found in the account.'' \<rparr>, w)
       \<and> ses_calls (snd (lambda_handler w event)) = ses_calls w"
  using assms by (simp add: lambda_handler_def Let_def)

text \<open>Claim C4 on an account without instances.\<close>

theorem empty_inventory_short_circuit_witness:
  "lambda_handler (sample_world [] [] (\<lambda>metric. []) (Inr ''id-1'')) None =
     (\<lparr> statusCode = 200, body = ''No RDS instances found in the account.'' \<rparr>,
      sample_world [] [] (\<lambda>metric. []) (Inr ''id-1''))
   \<and> ses_calls (snd (lambda_handler (sample_world [] [] (\<lambda>metric. []) (Inr ''id-1'')) None)) = []"
proof -
  let ?w = "sample_world [] [] (\<lambda>metric. []) (Inr ''id-1'')"
  have r: "get_rds_metrics_report ?w = Inr []"
    by (simp add: get_rds_metrics_report_def sample_world_def)
  from empty_inventory_short_circuit [OF r, of None] show ?thesis
    by (simp add: sample_world_fields)
qed

text \<open>
  Claim C7. When the collector returns a non-empty list, the status code is 200 whatever
  \<open>send_report_email\<close> returns; its result only selects the wording of the body.
\<close>

theorem dispatch_outcome_only_in_body:
  assumes "get_rds_metrics_report w = Inr rows" and "rows \<noteq> []"
  shows "statusCode (fst (lambda_handler w event)) = 200
       \<and> body (fst (lambda_handler w event)) =
           ''RDS metrics report generated and ''
           @ (if fst (send_report_email w (DataFrame rows) (to_csv (DataFrame rows))
                        (resolve_recipients w event))
              then ''email sent successfully'' else ''failed to send email'') @ ''.''"
  by (simp add: handler_dispatch [OF assms])

text \<open>Claim C7 on a mail service that accepts the message, and on one that refuses it.\<close>

theorem dispatch_outcome_only_in_body_witness:
  "statusCode (fst (lambda_handler
     (sample_world []
        [\<lparr>DBInstanceIdentifier = ''db-1'', AllocatedStorage = 100, DBInstanceStatus = ''available''\<rparr>]
        (\<lambda>metric. [\<lparr>Timestamp = 1, Average = 12884901888\<rparr>]) (Inr ''id-1'')) None)) = 200
   \<and> body (fst (lambda_handler
     (sample_world []
        [\<lparr>DBInstanceIdentifier = ''db-1'', AllocatedStorage = 100, DBInstanceStatus = ''available''\<rparr>]
        (\<lambda>metric. [\<lparr>Timestamp = 1, Average = 12884901888\<rparr>]) (Inr ''id-1'')) None))
      = ''RDS metrics report generated and email sent successfully.''
   \<and> statusCode (fst (lambda_handler
     (sample_world []
        [\<lparr>DBInstanceIdentifier = ''db-1'', AllocatedStorage = 100, DBInstanceStatus = ''available''\<rparr>]
        (\<lambda>metric. [\<lparr>Timestamp = 1, Average = 12884901888\<rparr>])
        (Inl (ClientError ''Email address is not verified''))) None)) = 200
   \<and> body (fst (lambda_handler
     (sample_world []
        [\<lparr>DBInstanceIdentifier = ''db-1'', AllocatedStorage = 100, DBInstanceStatus = ''available''\<rparr>]
        (\<lambda>metric. [\<lparr>Timestamp = 1, Average = 12884901888\<rparr>])
        (Inl (ClientError ''Email address is not verified''))) None))
      = ''RDS metrics report generated and failed to send email.''"
proof -
  let ?w = "\<lambda>ses. sample_world []
        [\<lparr>DBInstanceIdentifier = ''db-1'', AllocatedStorage = 100, DBInstanceStatus = ''available''\<rparr>]
        (\<lambda>metric. [\<lparr>Timestamp = 1, Average = 12884901888\<rparr>]) ses"
  let ?rows = "[[(''RDS Instance Name'', PyStr ''db-1''),
         (''Instance State'', PyStr ''available''),
         (''Allocated Space (GB)'', PyInt 100),
         (''Free Storage Space (GB)'', PyFloat 12),
         (''Free Storage Space (%)'', PyFloat 12),
         (''Freeable Memory (GB)'', PyFloat 12)]]"
  have ne: "?rows \<noteq> []" by simp
  have rc: "resolve_recipients (?w ses) None = PyList [PyStr ''saasadmin@readywire.com'']" for ses
    by (simp add: resolve_recipients_def sample_world_fields)
  have sent: "fst (send_report_email (?w ses) (DataFrame ?rows) (to_csv (DataFrame ?rows))
                     (PyList [PyStr ''saasadmin@readywire.com''])) = (\<not> isl ses)" for ses
  proof -
    have "\<exists>request. compose_request (?w ses) (DataFrame ?rows) (to_csv (DataFrame ?rows))
                     (PyList [PyStr ''saasadmin@readywire.com'']) = Inr request"
      by (rule compose_request_report [OF sample_report_db1 ne]) (simp_all add: sample_world_fields)
    with send_report_email_cases [of "?w ses" "DataFrame ?rows" "to_csv (DataFrame ?rows)"
        "PyList [PyStr ''saasadmin@readywire.com'']"]
    show ?thesis by (auto simp: sample_world_fields)
  qed
  from dispatch_outcome_only_in_body [OF sample_report_db1 ne, of "[]" "Inr ''id-1''" None]
       dispatch_outcome_only_in_body [OF sample_report_db1 ne, of "[]"
         "Inl (ClientError ''Email address is not verified'')" None]
  show ?thesis by (simp add: rc sent)
qed



text \<open>
  Claim C6. When the event has an entry \<open>recipients\<close>, the recipients are that entry
  alone; when the event is \<open>None\<close> or has no such entry, they are the default (the
  environment variable, or the fixed address when it is unset) split at commas. A request
  handed to the mail service by the handler is addressed to exactly these recipients.
\<close>

theorem event_recipients_override:
  "(map_of ev ''recipients'' = Some r \<longrightarrow> resolve_recipients w (Some ev) = r)
   \<and> (map_of ev ''recipients'' = None \<longrightarrow>
        resolve_recipients w (Some ev) =
          PyList (map PyStr (py_split
            (case map_of (environ w) ''EMAIL_RECIPIENTS'' of
               Some v \<Rightarrow> v | None \<Rightarrow> ''saasadmin@readywire.com'') (CHR '',''))))
   \<and> resolve_recipients w None =
          PyList (map PyStr (py_split
            (case map_of (environ w) ''EMAIL_RECIPIENTS'' of
               Some v \<Rightarrow> v | None \<Rightarrow> ''saasadmin@readywire.com'') (CHR '','')))
   \<and> (ses_calls (snd (lambda_handler w event)) = ses_calls w
        \<or> (\<exists>request. ses_calls (snd (lambda_handler w event)) = ses_calls w @ [request]
              \<and> Destinations request = resolve_recipients w event))"
proof -
  have "ses_calls (snd (lambda_handler w event)) = ses_calls w
        \<or> (\<exists>request. ses_calls (snd (lambda_handler w event)) = ses_calls w @ [request]
              \<and> Destinations request = resolve_recipients w event)"
    using handler_calls [of w event] compose_request_shape(2) by blast
  then show ?thesis by (simp add: resolve_recipients_eq)
qed

text \<open>
  Claim C6 with two configured addresses: an event with one recipient replaces both;
  an event without the entry, and no event, keep both.
\<close>

theorem event_recipients_override_witness:
  "resolve_recipients
     (sample_world [(''EMAIL_RECIPIENTS'', ''ops@x.com,dba@x.com'')]
        [\<lparr>DBInstanceIdentifier = ''db-1'', AllocatedStorage = 100, DBInstanceStatus = ''available''\<rparr>]
        (\<lambda>metric. [\<lparr>Timestamp = 1, Average = 12884901888\<rparr>]) (Inr ''id-1''))
     (Some [(''recipients'', PyList [PyStr ''a@x.com''])]) = PyList [PyStr ''a@x.com'']
   \<and> resolve_recipients
     (sample_world [(''EMAIL_RECIPIENTS'', ''ops@x.com,dba@x.com'')]
        [\<lparr>DBInstanceIdentifier = ''db-1'', AllocatedStorage = 100, DBInstanceStatus = ''available''\<rparr>]
        (\<lambda>metric. [\<lparr>Timestamp = 1, Average = 12884901888\<rparr>]) (Inr ''id-1''))
     (Some [(''dry_run'', PyNone)]) = PyList [PyStr ''ops@x.com'', PyStr ''dba@x.com'']
   \<and> resolve_recipients
     (sample_world [(''EMAIL_RECIPIENTS'', ''ops@x.com,dba@x.com'')]
        [\<lparr>DBInstanceIdentifier = ''db-1'', AllocatedStorage = 100, DBInstanceStatus = ''available''\<rparr>]
        (\<lambda>metric. [\<lparr>Timestamp = 1, Average = 12884901888\<rparr>]) (Inr ''id-1''))
     None = PyList [PyStr ''ops@x.com'', PyStr ''dba@x.com'']
   \<and> (\<exists>request. ses_calls (snd (lambda_handler
     (sample_world [(''EMAIL_RECIPIENTS'', ''ops@x.com,dba@x.com'')]
        [\<lparr>DBInstanceIdentifier = ''db-1'', AllocatedStorage = 100, DBInstanceStatus = ''available''\<rparr>]
        (\<lambda>metric. [\<lparr>Timestamp = 1, Average = 12884901888\<rparr>]) (Inr ''id-1''))
     (Some [(''recipients'', PyList [PyStr ''a@x.com''])]))) = [request]
       \<and> Destinations request = PyList [PyStr ''a@x.com''])"
proof -
  let ?w = "sample_world [(''EMAIL_RECIPIENTS'', ''ops@x.com,dba@x.com'')]
        [\<lparr>DBInstanceIdentifier = ''db-1'', AllocatedStorage = 100, DBInstanceStatus = ''available''\<rparr>]
        (\<lambda>metric. [\<lparr>Timestamp = 1, Average = 12884901888\<rparr>]) (Inr ''id-1'')"
  let ?ev = "[(''recipients'', PyList [PyStr ''a@x.com''])]"
  let ?rows = "[[(''RDS Instance Name'', PyStr ''db-1''),
         (''Instance State'', PyStr ''available''),
         (''Allocated Space (GB)'', PyInt 100),
         (''Free Storage Space (GB)'', PyFloat 12),
         (''Free Storage Space (%)'', PyFloat 12),
         (''Freeable Memory (GB)'', PyFloat 12)]]"
  have sp: "py_split ''ops@x.com,dba@x.com'' (CHR '','') = [''ops@x.com'', ''dba@x.com'']"
    by simp
  from event_recipients_override [of ?ev "PyList [PyStr ''a@x.com'']" ?w]
  have a: "resolve_recipients ?w (Some ?ev) = PyList [PyStr ''a@x.com'']" by simp
  from event_recipients_override [of "[(''dry_run'', PyNone)]" _ ?w]
  have b: "resolve_recipients ?w (Some [(''dry_run'', PyNone)])
            = PyList [PyStr ''ops@x.com'', PyStr ''dba@x.com'']"
    and c: "resolve_recipients ?w None = PyList [PyStr ''ops@x.com'', PyStr ''dba@x.com'']"
    by (simp_all add: sample_world_fields sp)
  have ne: "?rows \<noteq> []" by simp
  have "\<exists>request. compose_request ?w (DataFrame ?rows) (to_csv (DataFrame ?rows))
                     (PyList [PyStr ''a@x.com'']) = Inr request"
    by (rule compose_request_report [OF sample_report_db1 ne]) (simp_all add: sample_world_fields)
  with send_report_email_cases [of ?w "DataFrame ?rows" "to_csv (DataFrame ?rows)"
        "PyList [PyStr ''a@x.com'']"]
  have "length (ses_calls (snd (send_report_email ?w (DataFrame ?rows) (to_csv (DataFrame ?rows))
                     (PyList [PyStr ''a@x.com''])))) = 1"
    by (auto simp: sample_world_fields)
  then have called: "ses_calls (snd (lambda_handler ?w (Some ?ev))) \<noteq> ses_calls ?w"
    by (auto simp: handler_dispatch [OF sample_report_db1 ne] a sample_world_fields)
  from event_recipients_override [of ?ev "PyList [PyStr ''a@x.com'']" ?w "Some ?ev"] called
  have d: "\<exists>request. ses_calls (snd (lambda_handler ?w (Some ?ev))) = [request]
       \<and> Destinations request = PyList [PyStr ''a@x.com'']"
    by (simp add: sample_world_fields a)
  from a b c d show ?thesis by simp
qed

text \<open>
  Claim C10. With \<open>EMAIL_RECIPIENTS\<close> unset and no \<open>recipients\<close> entry in the event
  (or no event), the recipients are the list of the one fixed address, and a request
  handed to the mail service is addressed to it.
\<close>

theorem default_recipient_when_unconfigured:
  assumes "map_of (environ w) ''EMAIL_RECIPIENTS'' = None"
    and "event = None \<or> (\<exists>ev. event = Some ev \<and> map_of ev ''recipients'' = None)"
  shows "resolve_recipients w event = PyList [PyStr ''saasadmin@readywire.com'']
       \<and> (ses_calls (snd (lambda_handler w event)) = ses_calls w
          \<or> (\<exists>request. ses_calls (snd (lambda_handler w event)) = ses_calls w @ [request]
                \<and> Destinations request = PyList [PyStr ''saasadmin@readywire.com'']))"
proof -
  have sp: "py_split ''saasadmin@readywire.com'' (CHR '','') = [''saasadmin@readywire.com'']"
    by simp
  have r: "resolve_recipients w event = PyList [PyStr ''saasadmin@readywire.com'']"
    using assms by (auto simp: resolve_recipients_eq sp)
  have "ses_calls (snd (lambda_handler w event)) = ses_calls w
        \<or> (\<exists>request. ses_calls (snd (lambda_handler w event)) = ses_calls w @ [request]
              \<and> Destinations request = resolve_recipients w event)"
    using handler_calls [of w event] compose_request_shape(2) by blast
  with r show ?thesis by simp
qed

text \<open>Claim C10 in an environment that does not set the variable.\<close>

theorem default_recipient_when_unconfigured_witness:
  "resolve_recipients (sample_world [(''TZ'', ''UTC'')] [] (\<lambda>metric. []) (Inr ''id-1'')) None
     = PyList [PyStr ''saasadmin@readywire.com'']
   \<and> resolve_recipients (sample_world [(''TZ'', ''UTC'')] [] (\<lambda>metric. []) (Inr ''id-1''))
       (Some [(''dry_run'', PyNone)])
     = PyList [PyStr ''saasadmin@readywire.com'']"
proof -
  let ?w = "sample_world [(''TZ'', ''UTC'')] [] (\<lambda>metric. []) (Inr ''id-1'')"
  have e: "map_of (environ ?w) ''EMAIL_RECIPIENTS'' = None"
    by (simp add: sample_world_fields)
  have n: "(None :: (string \<times> py_value) list option) = None
           \<or> (\<exists>ev. None = Some ev \<and> map_of ev ''recipients'' = None)" by simp
  have s: "Some [(''dry_run'', PyNone)] = None
           \<or> (\<exists>ev. Some [(''dry_run'', PyNone)] = Some ev \<and> map_of ev ''recipients'' = None)"
    by simp
  from default_recipient_when_unconfigured [OF e n]
       default_recipient_when_unconfigured [OF e s]
  show ?thesis by simp
qed

text \<open>
  Claim C5, as amended. The CSV buffer of a non-empty report starts with the record of the
  six column names, the first of which is \<open>RDS Instance Name\<close>, followed by one record
  per listed instance, in listing order, each starting with the instance's identifier;
  and this buffer is the attachment of a request handed to the mail service.
\<close>

theorem csv_header_and_rows:
  assumes "get_rds_metrics_report w = Inr rows" and "rows \<noteq> []"
    and "describe_db_instances w = Inr instances"
  shows "to_csv (DataFrame rows) =
           map PyStr [''RDS Instance Name'', ''Instance State'', ''Allocated Space (GB)'',
                      ''Free Storage Space (GB)'', ''Free Storage Space (%)'',
                      ''Freeable Memory (GB)'']
           # map (map snd) rows
       \<and> length (to_csv (DataFrame rows)) = Suc (length instances)
       \<and> (\<forall>i < length instances.
            to_csv (DataFrame rows) ! Suc i ! 0 = PyStr (DBInstanceIdentifier (instances ! i)))
       \<and> (ses_calls (snd (lambda_handler w event)) = ses_calls w
          \<or> (\<exists>request html name.
                ses_calls (snd (lambda_handler w event)) = ses_calls w @ [request]
              \<and> payload (RawMessage request) =
                  [MIMEText html ''html'', MIMEApplication (to_csv (DataFrame rows)) name]))"
proof -
  note frame = report_frame [OF assms(1,2)]
  have csv: "to_csv (DataFrame rows) =
           map PyStr [''RDS Instance Name'', ''Instance State'', ''Allocated Space (GB)'',
                      ''Free Storage Space (GB)'', ''Free Storage Space (%)'',
                      ''Freeable Memory (GB)'']
           # map (map snd) rows"
    by (simp add: to_csv_def frame)
  have len: "length rows = length instances"
    by (rule report_rows(1) [OF assms(1,3)])
  have ident: "to_csv (DataFrame rows) ! Suc i ! 0 = PyStr (DBInstanceIdentifier (instances ! i))"
    if i: "i < length instances" for i
  proof -
    from report_rows(2) [OF assms(1,3) i]
    have "instance_row w (utcnow w) (instances ! i) = Inr (rows ! i)" .
    from instance_row_shape [OF this] obtain g p m where
      "rows ! i = [(''RDS Instance Name'', PyStr (DBInstanceIdentifier (instances ! i))),
          (''Instance State'', PyStr (DBInstanceStatus (instances ! i))),
          (''Allocated Space (GB)'', PyInt (AllocatedStorage (instances ! i))),
          (''Free Storage Space (GB)'', g),
          (''Free Storage Space (%)'', p),
          (''Freeable Memory (GB)'', m)]"
      by blast
    with i len show ?thesis by (simp add: csv)
  qed
  have att: "ses_calls (snd (lambda_handler w event)) = ses_calls w
          \<or> (\<exists>request html name.
                ses_calls (snd (lambda_handler w event)) = ses_calls w @ [request]
              \<and> payload (RawMessage request) =
                  [MIMEText html ''html'', MIMEApplication (to_csv (DataFrame rows)) name])"
    using handler_calls [of w event] compose_request_shape(3) assms(1) by fastforce
  from csv len ident att show ?thesis by simp
qed

text \<open>
  Claim C5 as stated fails on the first column name: the header begins with
  \<open>RDS Instance Name\<close>, not with \<open>Instance Name\<close>.
\<close>

theorem csv_header_first_column:
  "get_rds_metrics_report
     (sample_world []
        [\<lparr>DBInstanceIdentifier = ''db-1'', AllocatedStorage = 100, DBInstanceStatus = ''available''\<rparr>]
        series_12gb (Inr ''id-1'')) =
   Inr [[(''RDS Instance Name'', PyStr ''db-1''),
         (''Instance State'', PyStr ''available''),
         (''Allocated Space (GB)'', PyInt 100),
         (''Free Storage Space (GB)'', PyFloat 12),
         (''Free Storage Space (%)'', PyFloat 12),
         (''Freeable Memory (GB)'', PyFloat 12)]]
   \<and> to_csv (DataFrame
        [[(''RDS Instance Name'', PyStr ''db-1''),
         (''Instance State'', PyStr ''available''),
         (''Allocated Space (GB)'', PyInt 100),
         (''Free Storage Space (GB)'', PyFloat 12),
         (''Free Storage Space (%)'', PyFloat 12),
         (''Freeable Memory (GB)'', PyFloat 12)]]) ! 0 =
       map PyStr [''RDS Instance Name'', ''Instance State'', ''Allocated Space (GB)'',
                  ''Free Storage Space (GB)'', ''Free Storage Space (%)'',
                  ''Freeable Memory (GB)'']
   \<and> to_csv (DataFrame
        [[(''RDS Instance Name'', PyStr ''db-1''),
         (''Instance State'', PyStr ''available''),
         (''Allocated Space (GB)'', PyInt 100),
         (''Free Storage Space (GB)'', PyFloat 12),
         (''Free Storage Space (%)'', PyFloat 12),
         (''Freeable Memory (GB)'', PyFloat 12)]]) ! 0 \<noteq>
       map PyStr [''Instance Name'', ''Instance State'', ''Allocated Space (GB)'',
                  ''Free Storage Space (GB)'', ''Free Storage Space (%)'',
                  ''Freeable Memory (GB)'']"
proof -
  have g: "py_round 12 2 = 12" using py_round_of_int [of 12] by simp
  have p: "free_storage_percent (PyFloat 12) 100 = Inr (PyFloat 12)"
    by (rule free_storage_percent_value) (simp_all add: float_eval)
  show ?thesis
    by (simp add: sample_report_one series_12gb_def latest_gb_Cons g p to_csv_def DataFrame_def)
qed

text \<open>The amended claim C5 on a report of one instance.\<close>

theorem csv_header_and_rows_witness:
  "\<exists>rows. get_rds_metrics_report
     (sample_world []
        [\<lparr>DBInstanceIdentifier = ''db-1'', AllocatedStorage = 100, DBInstanceStatus = ''available''\<rparr>]
        (\<lambda>metric. [\<lparr>Timestamp = 1, Average = 12884901888\<rparr>]) (Inr ''id-1'')) = Inr rows
   \<and> to_csv (DataFrame rows) =
       [[PyStr ''RDS Instance Name'', PyStr ''Instance State'', PyStr ''Allocated Space (GB)'',
         PyStr ''Free Storage Space (GB)'', PyStr ''Free Storage Space (%)'',
         PyStr ''Freeable Memory (GB)''],
        [PyStr ''db-1'', PyStr ''available'', PyInt 100, PyFloat 12, PyFloat 12, PyFloat 12]]"
proof -
  let ?w = "sample_world []
        [\<lparr>DBInstanceIdentifier = ''db-1'', AllocatedStorage = 100, DBInstanceStatus = ''available''\<rparr>]
        (\<lambda>metric. [\<lparr>Timestamp = 1, Average = 12884901888\<rparr>]) (Inr ''id-1'')"
  let ?rows = "[[(''RDS Instance Name'', PyStr ''db-1''),
         (''Instance State'', PyStr ''available''),
         (''Allocated Space (GB)'', PyInt 100),
         (''Free Storage Space (GB)'', PyFloat 12),
         (''Free Storage Space (%)'', PyFloat 12),
         (''Freeable Memory (GB)'', PyFloat 12)]]"
  have r: "get_rds_metrics_report ?w = Inr ?rows" by (rule sample_report_db1)
  have ne: "?rows \<noteq> []" by simp
  have d: "describe_db_instances ?w =
      Inr [\<lparr>DBInstanceIdentifier = ''db-1'', AllocatedStorage = 100, DBInstanceStatus = ''available''\<rparr>]"
    by (simp add: sample_world_fields)
  from csv_header_and_rows [OF r ne d, of None] have
    "to_csv (DataFrame ?rows) =
       [[PyStr ''RDS Instance Name'', PyStr ''Instance State'', PyStr ''Allocated Space (GB)'',
         PyStr ''Free Storage Space (GB)'', PyStr ''Free Storage Space (%)'',
         PyStr ''Freeable Memory (GB)''],
        [PyStr ''db-1'', PyStr ''available'', PyInt 100, PyFloat 12, PyFloat 12, PyFloat 12]]"
    by simp
  with r show ?thesis by blast
qed

end
